theory Spec2Isabelle
  imports Main
begin

section \<open>Python text primitives\<close>

text \<open>
  Text is a list of characters. Isabelle's \<open>char\<close> has 256 values, read here as the code
  points U+0000 to U+00FF; the classification functions below agree with CPython 3.11 on
  that range (\<open>str.isspace\<close>, the \<^verbatim>\<open>\w\<close> class of \<open>re\<close> on \<open>str\<close> patterns,
  \<open>str.lower\<close>, \<open>str.upper\<close>). Code points above U+00FF are outside the model.
\<close>

definition NL :: char where
  "NL = CHR 0x0A"

definition SQUOTE :: char where
  "SQUOTE = CHR 0x27"

definition BACKSLASH :: char where
  "BACKSLASH = CHR 0x5C"

definition isspace :: "char \<Rightarrow> bool" where
  "isspace c = (let n = (of_char c :: nat)
     in (9 \<le> n \<and> n \<le> 13) \<or> (28 \<le> n \<and> n \<le> 32) \<or> n = 133 \<or> n = 160)"

definition isword :: "char \<Rightarrow> bool" where
  \<comment> \<open>the class \<^verbatim>\<open>\w\<close>: alphanumeric or underscore\<close>
  "isword c = (let n = (of_char c :: nat)
     in (48 \<le> n \<and> n \<le> 57) \<or> (65 \<le> n \<and> n \<le> 90) \<or> n = 95 \<or> (97 \<le> n \<and> n \<le> 122)
        \<or> n = 170 \<or> n = 178 \<or> n = 179 \<or> n = 181 \<or> n = 185 \<or> n = 186
        \<or> (188 \<le> n \<and> n \<le> 190) \<or> (192 \<le> n \<and> n \<le> 214) \<or> (216 \<le> n \<and> n \<le> 246)
        \<or> (248 \<le> n \<and> n \<le> 255))"

definition lower_char :: "char \<Rightarrow> char" where
  "lower_char c = (let n = (of_char c :: nat)
     in if (65 \<le> n \<and> n \<le> 90) \<or> (192 \<le> n \<and> n \<le> 214) \<or> (216 \<le> n \<and> n \<le> 222)
        then char_of (n + 32) else c)"

definition py_lower :: "string \<Rightarrow> string" where
  "py_lower s = map lower_char s"

definition upper_char :: "char \<Rightarrow> string" where
  \<comment> \<open>\<open>str.upper\<close> of one character; U+00DF becomes \<open>SS\<close>. The upper-case forms of
      U+00B5 and U+00FF lie above U+00FF: the model leaves these two characters as they are.\<close>
  "upper_char c = (let n = (of_char c :: nat)
     in if (97 \<le> n \<and> n \<le> 122) \<or> (224 \<le> n \<and> n \<le> 246) \<or> (248 \<le> n \<and> n \<le> 254)
        then [char_of (n - 32)]
        else if n = 223 then ''SS'' else [c])"

definition py_strip :: "string \<Rightarrow> string" where
  \<comment> \<open>\<open>s.strip()\<close>\<close>
  "py_strip s = rev (dropWhile isspace (rev (dropWhile isspace s)))"

definition strip_chars :: "string \<Rightarrow> string \<Rightarrow> string" where
  \<comment> \<open>\<open>s.strip(cs)\<close>\<close>
  "strip_chars cs s =
     rev (dropWhile (\<lambda>c. c \<in> set cs) (rev (dropWhile (\<lambda>c. c \<in> set cs) s)))"

definition startswith :: "string \<Rightarrow> string \<Rightarrow> bool" where
  "startswith s p = (take (length p) s = p)"

definition endswith :: "string \<Rightarrow> string \<Rightarrow> bool" where
  "endswith s p = (length p \<le> length s \<and> drop (length s - length p) s = p)"

fun find_sub :: "string \<Rightarrow> string \<Rightarrow> (string \<times> string) option" where
  \<comment> \<open>the text before and after the first occurrence of \<open>sep\<close> in \<open>s\<close>\<close>
  "find_sub sep [] = (if sep = [] then Some ([], []) else None)"
| "find_sub sep (c # cs) =
     (if startswith (c # cs) sep then Some ([], drop (length sep) (c # cs))
      else (case find_sub sep cs of None \<Rightarrow> None | Some (b, a) \<Rightarrow> Some (c # b, a)))"

definition contains :: "string \<Rightarrow> string \<Rightarrow> bool" where
  \<comment> \<open>\<open>sub in s\<close>\<close>
  "contains sub s = (find_sub sub s \<noteq> None)"

fun split_max :: "string \<Rightarrow> nat \<Rightarrow> string \<Rightarrow> string list" where
  \<comment> \<open>\<open>s.split(sep, n)\<close> for a non-empty separator: at most \<open>n\<close> splits, from the left\<close>
  "split_max sep 0 s = [s]"
| "split_max sep (Suc n) s =
     (case find_sub sep s of None \<Rightarrow> [s] | Some (b, a) \<Rightarrow> b # split_max sep n a)"

definition py_split :: "string \<Rightarrow> string \<Rightarrow> string list" where
  \<comment> \<open>\<open>s.split(sep)\<close>: no limit; a text of length \<open>n\<close> has at most \<open>n\<close> separators\<close>
  "py_split sep s = split_max sep (length s) s"

fun py_join :: "string \<Rightarrow> string list \<Rightarrow> string" where
  "py_join sep [] = []"
| "py_join sep [x] = x"
| "py_join sep (x # y # ys) = x @ sep @ py_join sep (y # ys)"

definition replace_char :: "char \<Rightarrow> char \<Rightarrow> string \<Rightarrow> string" where
  \<comment> \<open>\<open>s.replace(a, b)\<close> for one-character \<open>a\<close> and \<open>b\<close>\<close>
  "replace_char a b s = map (\<lambda>c. if c = a then b else c) s"

section \<open>Values of the structured-data loader\<close>

text \<open>
  \<open>yaml.safe_load\<close> belongs to a library outside the repository. It is a parameter of the
  model: a function from the text to either a raised exception or the loaded value.
  \<open>YOther\<close> stands for a value of a Python type with no counterpart here (a float, a
  date, bytes, a set): it carries its truth value and its printed form.
\<close>

datatype yaml =
    YNone
  | YBool bool
  | YInt int
  | YStr string
  | YList "yaml list"
  | YDict "(yaml \<times> yaml) list"
  | YOther bool string

datatype py_exn =
    YAMLError
  | OtherException \<comment> \<open>any other subclass of \<open>Exception\<close>\<close>

type_synonym loader = "string \<Rightarrow> py_exn + yaml"

type_synonym pydict = "yaml \<rightharpoonup> yaml"

fun truthy :: "yaml \<Rightarrow> bool" where
  "truthy YNone = False"
| "truthy (YBool b) = b"
| "truthy (YInt i) = (i \<noteq> 0)"
| "truthy (YStr s) = (s \<noteq> [])"
| "truthy (YList xs) = (xs \<noteq> [])"
| "truthy (YDict kvs) = (kvs \<noteq> [])"
| "truthy (YOther b r) = b"

definition get_truthy :: "pydict \<Rightarrow> string \<Rightarrow> bool" where
  \<comment> \<open>the truth value of \<open>meta.get(key)\<close>\<close>
  "get_truthy meta key = (case meta (YStr key) of None \<Rightarrow> False | Some v \<Rightarrow> truthy v)"

definition get_default :: "pydict \<Rightarrow> string \<Rightarrow> yaml \<Rightarrow> yaml" where
  \<comment> \<open>\<open>meta.get(key, default)\<close>\<close>
  "get_default meta key d = (case meta (YStr key) of None \<Rightarrow> d | Some v \<Rightarrow> v)"

section \<open>SkillParser._parse_metadata (scripts/fetching/parsers.py)\<close>

definition default_meta :: pydict where
  "default_meta = [YStr ''name'' \<mapsto> YStr '''', YStr ''description'' \<mapsto> YStr '''',
                   YStr ''category'' \<mapsto> YStr ''Uncategorized'', YStr ''tags'' \<mapsto> YList []]"

fun re_search_nested :: "string \<Rightarrow> bool" where
  \<comment> \<open>\<^verbatim>\<open>re.search(r'\w+\[[^\]]+\]', val)\<close>: a word character, an opening bracket, a
      character other than the closing bracket, and a closing bracket somewhere after\<close>
  "re_search_nested (w # b # x # rest) =
     ((isword w \<and> b = CHR ''['' \<and> x \<noteq> CHR '']'' \<and> CHR '']'' \<in> set rest)
      \<or> re_search_nested (b # x # rest))"
| "re_search_nested _ = False"

fun tokenize :: "string \<Rightarrow> string list \<Rightarrow> string \<Rightarrow> int \<Rightarrow> string list \<times> string" where
  \<comment> \<open>the loop over \<open>val[1:-1]\<close>: the items so far, the current item, the bracket depth\<close>
  "tokenize [] items current_item bracket_depth = (items, current_item)"
| "tokenize (c # cs) items current_item bracket_depth =
     (if c = CHR ''['' then tokenize cs items (current_item @ [c]) (bracket_depth + 1)
      else if c = CHR '']'' then tokenize cs items (current_item @ [c]) (bracket_depth - 1)
      else if c = CHR '','' \<and> bracket_depth = 0
        then tokenize cs (items @ [py_strip current_item]) [] bracket_depth
      else tokenize cs items (current_item @ [c]) bracket_depth)"

definition split_items :: "string \<Rightarrow> string list" where
  "split_items val =
     (case tokenize (butlast (tl val)) [] [] 0 of
        (items, current_item) \<Rightarrow>
          if py_strip current_item \<noteq> [] then items @ [py_strip current_item] else items)"

definition quote_item :: "string \<Rightarrow> string" where
  "quote_item item =
     (if CHR ''['' \<in> set item \<and> \<not> (startswith item ''\"'' \<or> startswith item [SQUOTE])
      then ''\"'' @ item @ ''\"'' else item)"

definition requote_sequence :: "string \<Rightarrow> string" where
  "requote_sequence val = ''['' @ py_join '', '' (map quote_item (split_items val)) @ '']''"

definition repair_value :: "string \<Rightarrow> string" where
  "repair_value val =
     (if startswith val ''['' \<and> endswith val '']''
      then (if re_search_nested val then requote_sequence val else val)
      else if CHR '':'' \<in> set val \<and> \<not> (startswith val ''\"'' \<or> startswith val [SQUOTE])
        then ''\"'' @ val @ ''\"''
      else val)"

definition repair_line :: "string \<Rightarrow> string" where
  \<comment> \<open>one turn of the loop over the lines of the frontmatter. The unpacking
      \<open>key, val = line.split(':', 1)\<close> cannot fail: a line with a colon splits in two
      (lemma \<open>split_colon_two\<close>).\<close>
  "repair_line line =
     (if CHR '':'' \<in> set line \<and> \<not> startswith (py_strip line) ''#''
      then (case split_max '':'' 1 line of
              key # val # _ \<Rightarrow> key @ '': '' @ repair_value (py_strip val)
            | _ \<Rightarrow> line)
      else line)"

definition repair_frontmatter :: "string \<Rightarrow> string" where
  "repair_frontmatter frontmatter_str =
     py_join [NL] (map repair_line (py_split [NL] frontmatter_str))"

definition load_frontmatter :: "loader \<Rightarrow> string \<Rightarrow> py_exn + yaml" where
  \<comment> \<open>the inner \<open>try\<close>: only a \<open>YAMLError\<close> of the first load is handled, by loading the
      repaired text; whatever the second load raises leaves the handler\<close>
  "load_frontmatter safe_load frontmatter_str =
     (case safe_load frontmatter_str of
        Inl YAMLError \<Rightarrow> safe_load (repair_frontmatter frontmatter_str)
      | Inl OtherException \<Rightarrow> Inl OtherException
      | Inr frontmatter \<Rightarrow> Inr frontmatter)"

definition merge_frontmatter :: "loader \<Rightarrow> pydict \<Rightarrow> string \<Rightarrow> py_exn + (pydict \<times> string)" where
  \<comment> \<open>the body of the \<open>try\<close> under \<open>content.startswith("---")\<close>: the new \<open>meta\<close> and the
      new \<open>content\<close>\<close>
  "merge_frontmatter safe_load meta content =
     (case split_max ''---'' 2 content of
        p0 # p1 # p2 # _ \<Rightarrow>
          (case load_frontmatter safe_load p1 of
             Inl e \<Rightarrow> Inl e
           | Inr (YDict kvs) \<Rightarrow>
               if kvs \<noteq> [] then Inr (meta ++ map_of kvs, p2) else Inr (meta, content)
           | Inr _ \<Rightarrow> Inr (meta, content))
      | _ \<Rightarrow> Inr (meta, content))"

definition frontmatter_stage :: "loader \<Rightarrow> pydict \<Rightarrow> string \<Rightarrow> pydict \<times> string" where
  \<comment> \<open>\<open>except Exception\<close>: a warning is logged; \<open>meta\<close> and \<open>content\<close> are as before,
      since they are assigned only after the load has returned\<close>
  "frontmatter_stage safe_load meta content =
     (if startswith content ''---''
      then (case merge_frontmatter safe_load meta content of
              Inl e \<Rightarrow> (meta, content)
            | Inr r \<Rightarrow> r)
      else (meta, content))"

fun first_header :: "string list \<Rightarrow> string option" where
  \<comment> \<open>the text of the first line that, stripped, starts with \<^verbatim>\<open># \<close>\<close>
  "first_header [] = None"
| "first_header (l # ls) =
     (let line = py_strip l
      in if startswith line ''# '' then Some (py_strip (drop 2 line)) else first_header ls)"

fun collect_description :: "yaml option \<Rightarrow> bool \<Rightarrow> string list \<Rightarrow> string list \<Rightarrow> string list" where
  \<comment> \<open>the description loop: the name (absent or any value), \<open>in_description\<close>, the lines
      collected so far, the lines still to read\<close>
  "collect_description nm in_description description_lines [] = description_lines"
| "collect_description nm in_description description_lines (l # ls) =
     (let line = py_strip l
      in if startswith line ''# ''
            \<and> (case nm of None \<Rightarrow> False | Some v \<Rightarrow> truthy v \<and> YStr (py_strip (drop 2 line)) = v)
         then collect_description nm True description_lines ls
         else if startswith line ''#'' \<and> in_description then description_lines
         else if in_description \<and> line \<noteq> []
           then collect_description nm in_description (description_lines @ [line]) ls
         else collect_description nm in_description description_lines ls)"

definition heuristic_name :: "pydict \<Rightarrow> string \<Rightarrow> pydict" where
  "heuristic_name meta content =
     (if \<not> get_truthy meta ''name''
      then (case first_header (py_split [NL] content) of
              None \<Rightarrow> meta
            | Some n \<Rightarrow> meta(YStr ''name'' \<mapsto> YStr n))
      else meta)"

definition heuristic_description :: "pydict \<Rightarrow> string \<Rightarrow> pydict" where
  "heuristic_description meta content =
     (if \<not> get_truthy meta ''description''
      then (let description_lines =
                  collect_description (meta (YStr ''name'')) False [] (py_split [NL] content)
            in if description_lines \<noteq> []
               then meta(YStr ''description'' \<mapsto> YStr (py_strip (py_join '' '' description_lines)))
               else meta)
      else meta)"

definition parse_metadata_body :: "loader \<Rightarrow> string option \<Rightarrow> py_exn + pydict" where
  \<comment> \<open>the outer \<open>try\<close>. The file is given by what reading it returns: \<open>None\<close> when
      \<open>open\<close> or \<open>read\<close> raises (a missing file, a directory, bytes that are not UTF-8)\<close>
  "parse_metadata_body safe_load file =
     (case file of
        None \<Rightarrow> Inl OtherException
      | Some content \<Rightarrow>
          (case frontmatter_stage safe_load default_meta content of
             (meta, content') \<Rightarrow>
               Inr (heuristic_description (heuristic_name meta content') content')))"

definition parse_metadata :: "loader \<Rightarrow> string option \<Rightarrow> py_exn + pydict" where
  \<comment> \<open>\<open>_parse_metadata\<close>: \<open>Inl\<close> would be an exception reaching the caller\<close>
  "parse_metadata safe_load file =
     (case parse_metadata_body safe_load file of
        Inl e \<Rightarrow> Inr default_meta
      | Inr meta \<Rightarrow> Inr meta)"

section \<open>Paths and the file system\<close>

text \<open>
  A path is absolute and is the list of its components below the root directory (the
  root itself is the empty list). A file system is a tree; a file holds what reading it as
  UTF-8 text returns, \<open>None\<close> when the read raises. Symbolic links and directories that
  cannot be listed are not modelled.
\<close>

type_synonym path = "string list"

datatype fsnode =
    File "string option"
  | Dir "(string \<times> fsnode) list"

fun walk :: "fsnode \<Rightarrow> fsnode list \<Rightarrow> path \<Rightarrow> fsnode option" where
  \<comment> \<open>resolution of a path from a node, with the directories above it; \<open>..\<close> steps up
      and stays at the root\<close>
  "walk cur ups [] = Some cur"
| "walk cur ups (c # cs) =
     (case cur of
        File t \<Rightarrow> None
      | Dir entries \<Rightarrow>
          if c = ''..'' then (case ups of [] \<Rightarrow> walk cur [] cs | u # us \<Rightarrow> walk u us cs)
          else (case map_of entries c of
                  None \<Rightarrow> None
                | Some n \<Rightarrow> walk n (cur # ups) cs))"

definition path_exists :: "fsnode \<Rightarrow> path \<Rightarrow> bool" where
  \<comment> \<open>\<open>p.exists()\<close>\<close>
  "path_exists fs p = (walk fs [] p \<noteq> None)"

definition read_text :: "fsnode option \<Rightarrow> string option" where
  \<comment> \<open>\<open>open(p).read()\<close>: \<open>None\<close> for a missing file, a directory, an unreadable file\<close>
  "read_text n = (case n of Some (File (Some content)) \<Rightarrow> Some content | _ \<Rightarrow> None)"

definition path_name :: "path \<Rightarrow> string" where
  \<comment> \<open>\<open>p.name\<close>: empty for the root\<close>
  "path_name p = (if p = [] then [] else last p)"

definition path_parent :: "path \<Rightarrow> path" where
  \<comment> \<open>\<open>p.parent\<close>: the root is its own parent\<close>
  "path_parent p = butlast p"

definition path_parents :: "path \<Rightarrow> path list" where
  \<comment> \<open>\<open>p.parents\<close>: from the parent up to the root\<close>
  "path_parents p = map (\<lambda>k. take k p) (rev [0..<length p])"

definition relative_to :: "path \<Rightarrow> path \<Rightarrow> path option" where
  \<comment> \<open>\<open>p.relative_to(base)\<close>: \<open>None\<close> is the \<open>ValueError\<close>\<close>
  "relative_to p base =
     (if take (length base) p = base then Some (drop (length base) p) else None)"

definition rel_str :: "path \<Rightarrow> string" where
  \<comment> \<open>\<open>str\<close> of a relative path\<close>
  "rel_str rel = (if rel = [] then ''.'' else py_join ''/'' rel)"

definition path_parts :: "string \<Rightarrow> path" where
  \<comment> \<open>the components \<open>Path\<close> keeps of a text: empty ones and \<open>.\<close> are dropped\<close>
  "path_parts s = filter (\<lambda>c. c \<noteq> [] \<and> c \<noteq> ''.'') (py_split ''/'' s)"

section \<open>SkillParser.parse_from_file (scripts/fetching/parsers.py)\<close>

text \<open>
  Modelled from the spec: \<open>RepoConfig\<close>, declared in \<open>fetching/base.py\<close>, which is not
  among the sources. It is the repository coordinate of the spec, with the fields that
  \<open>parse_from_file\<close> reads: \<open>owner\<close>, \<open>name\<close>, \<open>branch\<close> and the optional \<open>path\<close>.
\<close>

record repo_config =
  rc_owner :: string
  rc_name :: string
  rc_branch :: string
  rc_path :: "string option"

text \<open>
  One record stands for the \<open>Skill\<close> dataclass and for the dictionary with the same keys
  that \<open>Fetcher.clone_and_scan_repository\<close> builds. The four fields taken from the
  metadata hold whatever value the loader produced.
\<close>

record skill =
  sk_id :: string
  sk_name :: yaml
  sk_description :: yaml
  sk_category :: yaml
  sk_tags :: yaml
  sk_marketplace_id :: string
  sk_repo_owner :: string
  sk_repo_name :: string
  sk_repo_branch :: string
  sk_directory :: string
  sk_readme_url :: string

definition create_entity_key :: "repo_config \<Rightarrow> string \<Rightarrow> string" where
  "create_entity_key rc entity_name = rc_owner rc @ ''/'' @ rc_name rc @ '':'' @ entity_name"

definition find_repo_root :: "fsnode \<Rightarrow> path \<Rightarrow> path" where
  \<comment> \<open>the search for \<^verbatim>\<open>.git\<close>; \<open>parents[-2]\<close> (a negative index, as Python 3.10 and
      later read it) raises \<open>IndexError\<close> when there are fewer than two parents\<close>
  "find_repo_root fs skill_dir =
     (if path_exists fs (skill_dir @ [''.git'']) then skill_dir
      else (case find (\<lambda>parent. path_exists fs (parent @ [''.git''])) (path_parents skill_dir) of
              Some parent \<Rightarrow> parent
            | None \<Rightarrow>
                if 2 \<le> length (path_parents skill_dir)
                then path_parents skill_dir ! (length (path_parents skill_dir) - 2)
                else path_parent skill_dir))"

definition repo_relative_path :: "path \<Rightarrow> path \<Rightarrow> string" where
  "repo_relative_path skill_dir repo_root =
     (case relative_to skill_dir repo_root of
        Some rel \<Rightarrow> rel_str rel
      | None \<Rightarrow> path_name skill_dir)"

definition source_directory :: "fsnode \<Rightarrow> path \<Rightarrow> repo_config \<Rightarrow> string" where
  \<comment> \<open>the local variable \<open>source_directory\<close> of \<open>parse_from_file\<close>; no field of the
      \<open>Skill\<close> is built from it. A \<open>path\<close> that starts with a slash replaces the root;
      one that starts with exactly two slashes keeps them as its own root, to which no
      directory is relative, so that \<open>relative_to\<close> raises.\<close>
  "source_directory fs skill_dir rc =
     (let repo_root = find_repo_root fs skill_dir
      in case rc_path rc of
           None \<Rightarrow> repo_relative_path skill_dir repo_root
         | Some p \<Rightarrow>
             if p = [] then repo_relative_path skill_dir repo_root
             else (let full_skills_path =
                         (if startswith p ''/'' then path_parts p else repo_root @ path_parts p)
                   in case (if startswith p ''//'' \<and> \<not> startswith p ''///'' then None
                            else relative_to skill_dir full_skills_path) of
                        Some rel \<Rightarrow> rel_str rel
                      | None \<Rightarrow> repo_relative_path skill_dir repo_root))"

definition key_directory :: "path \<Rightarrow> path \<Rightarrow> repo_config \<Rightarrow> string" where
  \<comment> \<open>"Determine directory name for key"\<close>
  "key_directory skill_dir repo_root rc =
     (if skill_dir = repo_root then (if rc_name rc \<noteq> [] then rc_name rc else ''.'')
      else path_name skill_dir)"

definition parse_from_file :: "loader \<Rightarrow> fsnode \<Rightarrow> path \<Rightarrow> repo_config \<Rightarrow> py_exn + skill option" where
  "parse_from_file safe_load fs file_path rc =
     (if path_name file_path \<noteq> ''SKILL.md'' then Inr None
      else (let skill_dir = path_parent file_path
            in if startswith (path_name skill_dir) ''cam_'' then Inr None
               else (case parse_metadata safe_load (read_text (walk fs [] file_path)) of
                       Inl e \<Rightarrow> Inl e
                     | Inr meta \<Rightarrow>
                         (let repo_root = find_repo_root fs skill_dir;
                              directory = key_directory skill_dir repo_root rc
                          in Inr (Some \<lparr>
                               sk_id = create_entity_key rc directory,
                               sk_name = get_default meta ''name'' (YStr directory),
                               sk_description = get_default meta ''description'' (YStr []),
                               sk_category = get_default meta ''category'' (YStr ''Uncategorized''),
                               sk_tags = get_default meta ''tags'' (YList []),
                               sk_marketplace_id = rc_owner rc @ ''/'' @ rc_name rc,
                               sk_repo_owner = rc_owner rc,
                               sk_repo_name = rc_name rc,
                               sk_repo_branch = rc_branch rc,
                               sk_directory = directory,
                               sk_readme_url = ''https://github.com/'' @ rc_owner rc @ ''/''
                                 @ rc_name rc @ ''/tree/'' @ rc_branch rc @ ''/''
                                 @ repo_relative_path skill_dir repo_root \<rparr>)))))"

section \<open>Fetcher._parse_skill_md (scripts/utils/fetcher.py)\<close>

text \<open>
  \<open>skill_data\<close> is a dictionary with at most the keys \<open>name\<close>, \<open>description\<close>,
  \<open>category\<close> and \<open>tags\<close>; \<open>category\<close> is always set, so the dictionary is never empty.
\<close>

record skill_data =
  sd_name :: "string option"
  sd_description :: "string option"
  sd_category :: string
  sd_tags :: "string list option"

definition split_first :: "string \<Rightarrow> string \<Rightarrow> string" where
  \<comment> \<open>\<open>s.split(sep)[0]\<close>\<close>
  "split_first sep s = (case py_split sep s of [] \<Rightarrow> [] | x # _ \<Rightarrow> x)"

definition clean_category :: "string \<Rightarrow> string" where
  \<comment> \<open>what the first category loop does to \<open>parts[1]\<close>\<close>
  "clean_category p =
     (let c1 = py_strip (strip_chars ''*'' (py_strip p));
          c2 = py_strip (strip_chars [SQUOTE] (strip_chars ''\"'' c1));
          c3 = py_strip (split_first ''#'' c2);
          c4 = py_strip (split_first ''//'' c3)
      in py_strip (split_first '';'' c4))"

fun category_line :: "string list \<Rightarrow> string option" where
  "category_line [] = None"
| "category_line (line # ls) =
     (let line_lower = py_strip (py_lower line)
      in if contains ''category:'' line_lower \<or> contains ''categories:'' line_lower
         then (case split_max '':'' 1 line of
                 p0 # p1 # _ \<Rightarrow> Some (clean_category p1)
               | _ \<Rightarrow> category_line ls)
         else category_line ls)"

fun emphasis_category_line :: "string list \<Rightarrow> string option" where
  "emphasis_category_line [] = None"
| "emphasis_category_line (line # ls) =
     (if contains ''**category:**'' (py_lower line) \<or> contains ''**categories:**'' (py_lower line)
      then (case split_max '':'' 1 line of
              p0 # p1 # _ \<Rightarrow> Some (py_strip (strip_chars ''*'' (py_strip p1)))
            | _ \<Rightarrow> emphasis_category_line ls)
      else emphasis_category_line ls)"

definition normalize_category :: "string \<Rightarrow> string" where
  \<comment> \<open>\<^verbatim>\<open>re.sub(r'[^\w\s-]', '', category).strip()\<close>, then the first letter in upper case\<close>
  "normalize_category category =
     (let c = py_strip (filter (\<lambda>ch. isword ch \<or> isspace ch \<or> ch = CHR ''-'') category)
      in case c of [] \<Rightarrow> [] | ch # rest \<Rightarrow> upper_char ch @ rest)"

definition extract_category :: "string \<Rightarrow> string" where
  "extract_category content =
     (let lines = py_split [NL] content;
          content_lower = py_lower content;
          category1 = (if contains ''category:'' content_lower \<or> contains ''categories:'' content_lower
                       then category_line lines else None);
          category2 = (if category1 = None \<or> category1 = Some []
                       then (case emphasis_category_line lines of
                               Some c \<Rightarrow> Some c
                             | None \<Rightarrow> category1)
                       else category1);
          category3 = (case category2 of
                         None \<Rightarrow> None
                       | Some c \<Rightarrow> if c \<noteq> [] then Some (normalize_category c) else Some c)
      in case category3 of
           None \<Rightarrow> ''Uncategorized''
         | Some c \<Rightarrow> if c \<noteq> [] then c else ''Uncategorized'')"

fun extract_tags :: "string list \<Rightarrow> string list" where
  "extract_tags [] = []"
| "extract_tags (line # ls) =
     (let line_lower = py_strip (py_lower line)
      in if contains ''tags:'' line_lower \<or> contains ''tag:'' line_lower
         then (case split_max '':'' 1 line of
                 p0 # p1 # _ \<Rightarrow>
                   map (\<lambda>tag. py_strip (strip_chars ''*'' (py_strip tag)))
                     (py_split '','' (py_strip p1)) @ extract_tags ls
               | _ \<Rightarrow> extract_tags ls)
         else extract_tags ls)"

definition parse_skill_md :: "string option \<Rightarrow> skill_data option" where
  \<comment> \<open>\<open>_parse_skill_md\<close>: \<open>None\<close> when reading the file raises (the \<open>except\<close> branch)\<close>
  "parse_skill_md file =
     (case file of
        None \<Rightarrow> None
      | Some content \<Rightarrow>
          (let lines = py_split [NL] content;
               name = first_header lines;
               description_lines = collect_description (map_option YStr name) False [] lines;
               tags = extract_tags lines
           in Some \<lparr>
                sd_name = name,
                sd_description = (if description_lines \<noteq> []
                                  then Some (py_strip (py_join '' '' description_lines)) else None),
                sd_category = extract_category content,
                sd_tags = (if tags \<noteq> [] then Some tags else None) \<rparr>))"

section \<open>Fetcher.clone_and_scan_repository (scripts/utils/fetcher.py)\<close>

fun rglob :: "fsnode \<Rightarrow> path \<Rightarrow> (path \<times> fsnode) list" where
  \<comment> \<open>\<open>scan_dir.rglob("SKILL.md")\<close>: every entry of that name below the node, a directory
      before its subdirectories, each with the path of its directory from the start\<close>
  "rglob (File t) rel = []"
| "rglob (Dir entries) rel =
     (case map_of entries ''SKILL.md'' of None \<Rightarrow> [] | Some n \<Rightarrow> [(rel, n)])
     @ concat (map (\<lambda>e. rglob (snd e) (rel @ [fst e])) entries)"

datatype clone_result =
    CloneRaised
  | CloneFailed
  | Cloned fsnode

definition build_skill :: "string \<Rightarrow> string \<Rightarrow> string \<Rightarrow> path \<Rightarrow> path \<Rightarrow> path \<Rightarrow> skill_data \<Rightarrow> skill option" where
  \<comment> \<open>the \<open>try\<close> that builds one entry; \<open>None\<close> when \<open>relative_to\<close> raises \<open>ValueError\<close>\<close>
  "build_skill repo_owner repo_name repo_branch repo_path scan_dir skill_dir sd =
     (case relative_to skill_dir scan_dir of
        None \<Rightarrow> None
      | Some rel_path \<Rightarrow>
          (let source_directory = replace_char BACKSLASH (CHR ''/'') (rel_str rel_path);
               directory = (if source_directory = ''.''
                            then (if skill_dir \<noteq> scan_dir then path_name skill_dir else repo_name)
                            else path_name skill_dir)
           in case relative_to skill_dir repo_path of
                None \<Rightarrow> None
              | Some path_from_repo_root \<Rightarrow>
                  Some \<lparr>
                    sk_id = repo_owner @ ''/'' @ repo_name @ '':'' @ source_directory,
                    sk_name = (case sd_name sd of None \<Rightarrow> YStr directory | Some n \<Rightarrow> YStr n),
                    sk_description = (case sd_description sd of None \<Rightarrow> YStr [] | Some d \<Rightarrow> YStr d),
                    sk_category = YStr (sd_category sd),
                    sk_tags = (case sd_tags sd of None \<Rightarrow> YList [] | Some ts \<Rightarrow> YList (map YStr ts)),
                    sk_marketplace_id = repo_owner @ ''/'' @ repo_name,
                    sk_repo_owner = repo_owner,
                    sk_repo_name = repo_name,
                    sk_repo_branch = repo_branch,
                    sk_directory = directory,
                    sk_readme_url = ''https://github.com/'' @ repo_owner @ ''/'' @ repo_name
                      @ ''/tree/'' @ repo_branch @ ''/''
                      @ replace_char BACKSLASH (CHR ''/'') (rel_str path_from_repo_root) \<rparr>))"

definition scan_entry :: "string \<Rightarrow> string \<Rightarrow> string \<Rightarrow> path \<Rightarrow> path \<Rightarrow> path \<times> fsnode \<Rightarrow> skill option" where
  \<comment> \<open>one turn of the loop over the matches: \<open>None\<close> is a \<open>continue\<close>\<close>
  "scan_entry repo_owner repo_name repo_branch repo_path scan_dir m =
     (case parse_skill_md (read_text (Some (snd m))) of
        None \<Rightarrow> None
      | Some sd \<Rightarrow>
          build_skill repo_owner repo_name repo_branch repo_path scan_dir (scan_dir @ fst m) sd)"

definition scan_directory :: "path \<Rightarrow> string option \<Rightarrow> path" where
  "scan_directory repo_path skills_path =
     (case skills_path of
        None \<Rightarrow> repo_path
      | Some sp \<Rightarrow> if sp \<noteq> [] then repo_path @ path_parts (strip_chars ''/'' sp) else repo_path)"

definition clone_and_scan_repository ::
  "clone_result \<Rightarrow> path \<Rightarrow> string \<Rightarrow> string \<Rightarrow> string \<Rightarrow> string option \<Rightarrow> skill list" where
  \<comment> \<open>The clone is given by its outcome: it raised (a timeout), it returned a non-zero
      code, or it left the file system \<open>fs\<close>, with the checkout at \<open>temp_path/repo\<close>.\<close>
  "clone_and_scan_repository clone temp_path repo_owner repo_name repo_branch skills_path =
     (case clone of
        CloneRaised \<Rightarrow> []
      | CloneFailed \<Rightarrow> []
      | Cloned fs \<Rightarrow>
          (let repo_path = temp_path @ [''repo''];
               scan_dir = scan_directory repo_path skills_path
           in if skills_path \<noteq> None \<and> skills_path \<noteq> Some [] \<and> \<not> path_exists fs scan_dir then []
              else (case walk fs [] scan_dir of
                      None \<Rightarrow> []
                    | Some n \<Rightarrow>
                        List.map_filter
                          (scan_entry repo_owner repo_name repo_branch repo_path scan_dir)
                          (rglob n []))))"

section \<open>Predicates and example inputs\<close>

definition no_marker :: "fsnode \<Rightarrow> path \<Rightarrow> bool" where
  \<comment> \<open>neither the directory nor any directory above it holds \<^verbatim>\<open>.git\<close>\<close>
  "no_marker fs skill_dir =
     (\<not> path_exists fs (skill_dir @ [''.git''])
      \<and> find (\<lambda>parent. path_exists fs (parent @ [''.git''])) (path_parents skill_dir) = None)"


definition no_yaml :: loader where
  \<comment> \<open>a loader that rejects every text\<close>
  "no_yaml = (\<lambda>s. Inl YAMLError)"

definition acme_repo :: repo_config where
  "acme_repo = \<lparr>rc_owner = ''acme'', rc_name = ''repo1'', rc_branch = ''main'', rc_path = None\<rparr>"

definition nested_checkout :: fsnode where
  \<comment> \<open>\<^verbatim>\<open>/ws/.git\<close> and \<^verbatim>\<open>/ws/a/b/SKILL.md\<close>\<close>
  "nested_checkout = Dir [(''ws'', Dir [(''.git'', Dir []),
      (''a'', Dir [(''b'', Dir [(''SKILL.md'', File (Some (''# Beta'' @ [NL] @ ''text'')))])])])]"

definition bare_tree :: fsnode where
  \<comment> \<open>\<^verbatim>\<open>/srv/skills/demo/SKILL.md\<close>, no \<^verbatim>\<open>.git\<close> anywhere\<close>
  "bare_tree = Dir [(''srv'', Dir [(''skills'', Dir [(''demo'', Dir [
      (''SKILL.md'', File (Some ''no header''))])])])]"

definition pkg_a_text :: string where
  "pkg_a_text = ''---'' @ [NL] @ ''name: Alpha'' @ [NL] @ ''category: Tools'' @ [NL] @ ''---'' @ [NL]
     @ ''# Title'' @ [NL] @ ''Body text'' @ [NL]"

definition demo_checkout :: fsnode where
  \<comment> \<open>a checkout at \<^verbatim>\<open>/tmp/repo\<close> with three metadata files\<close>
  "demo_checkout = Dir [(''tmp'', Dir [(''repo'', Dir [
      (''SKILL.md'', File (Some ''plain text'')),
      (''pkg-a'', Dir [(''SKILL.md'', File (Some pkg_a_text))]),
      (''cam_cache'', Dir [(''SKILL.md'', File (Some ''# Cached''))])])])]"

definition text_only_meta :: "string \<Rightarrow> pydict" where
  \<comment> \<open>what the two heuristic steps make of the defaults and the whole text\<close>
  "text_only_meta content = heuristic_description (heuristic_name default_meta content) content"

definition one_document_loader :: "string \<Rightarrow> yaml \<Rightarrow> loader" where
  \<comment> \<open>a loader that accepts one text, with the given value, and rejects every other\<close>
  "one_document_loader doc v = (\<lambda>s. if s = doc then Inr v else Inl YAMLError)"

definition null_category_checkout :: fsnode where
  \<comment> \<open>\<^verbatim>\<open>/ws/.git\<close> and \<^verbatim>\<open>/ws/tool/SKILL.md\<close>, whose frontmatter is the line \<^verbatim>\<open>category:\<close>\<close>
  "null_category_checkout = Dir [(''ws'', Dir [(''.git'', Dir []),
      (''tool'', Dir [(''SKILL.md'', File (Some
         (''---'' @ [NL] @ ''category:'' @ [NL] @ ''---'' @ [NL] @ ''# Tool'' @ [NL])))])])]"

definition alpha_document :: string where
  "alpha_document = ''---'' @ [NL] @ ''name: Alpha'' @ [NL] @ ''description: First'' @ [NL]
     @ ''category: Tools'' @ [NL] @ ''tags: [x, y]'' @ [NL] @ ''---'' @ [NL]
     @ ''# Title'' @ [NL] @ ''Body text'' @ [NL]"

definition alpha_frontmatter :: string where
  "alpha_frontmatter = [NL] @ ''name: Alpha'' @ [NL] @ ''description: First'' @ [NL]
     @ ''category: Tools'' @ [NL] @ ''tags: [x, y]'' @ [NL]"

definition alpha_mapping :: "(yaml \<times> yaml) list" where
  "alpha_mapping = [(YStr ''name'', YStr ''Alpha''), (YStr ''description'', YStr ''First''),
     (YStr ''category'', YStr ''Tools''), (YStr ''tags'', YList [YStr ''x'', YStr ''y''])]"


definition tags_line :: string where
  "tags_line = ''tags: [foo[bar], baz]''"

definition quoted_tags_line :: string where
  "quoted_tags_line = ''tags: [\"foo[bar]\", baz]''"

definition ray_frontmatter :: string where
  \<comment> \<open>a block with the nested brackets and, in its last line, a colon inside a value\<close>
  "ray_frontmatter = [NL] @ ''name: Ray'' @ [NL] @ tags_line @ [NL]
     @ ''description: uses a: b'' @ [NL]"

definition ray_repaired :: string where
  "ray_repaired = [NL] @ ''name: Ray'' @ [NL] @ quoted_tags_line @ [NL]
     @ ''description: \"uses a: b\"'' @ [NL]"

definition ray_document :: string where
  "ray_document = ''---'' @ ray_frontmatter @ ''---'' @ [NL] @ ''# T''"

definition two_tags :: yaml where
  "two_tags = YList [YStr ''foo[bar]'', YStr ''baz'']"

definition ray_mapping :: "(yaml \<times> yaml) list" where
  "ray_mapping = [(YStr ''name'', YStr ''Ray''), (YStr ''tags'', two_tags),
     (YStr ''description'', YStr ''uses a: b'')]"

definition unclosed_document :: string where
  \<comment> \<open>the delimiter opens the text and never comes again\<close>
  "unclosed_document = ''---'' @ [NL] @ ''# Real'' @ [NL] @ ''text''"

definition plain_data :: skill_data where
  \<comment> \<open>what \<open>_parse_skill_md\<close> returns for the text \<open>plain text\<close>\<close>
  "plain_data = \<lparr>sd_name = None, sd_description = None, sd_category = ''Uncategorized'',
     sd_tags = None\<rparr>"

definition plain_skill :: skill where
  \<comment> \<open>what the Fetcher scan of \<open>demo_checkout\<close> returns for \<^verbatim>\<open>SKILL.md\<close> at the root\<close>
  "plain_skill = \<lparr>sk_id = ''acme/repo1:.'', sk_name = YStr ''repo1'',
     sk_description = YStr [], sk_category = YStr ''Uncategorized'', sk_tags = YList [],
     sk_marketplace_id = ''acme/repo1'', sk_repo_owner = ''acme'', sk_repo_name = ''repo1'',
     sk_repo_branch = ''main'', sk_directory = ''repo1'',
     sk_readme_url = ''https://github.com/acme/repo1/tree/main/.''\<rparr>"

definition broken_document :: string where
  \<comment> \<open>a frontmatter block that no loader accepts, and no header\<close>
  "broken_document = ''---'' @ [NL] @ '': ['' @ [NL] @ ''---'' @ [NL] @ ''plain''"

definition alpha_checkout :: fsnode where
  \<comment> \<open>\<^verbatim>\<open>/ws/.git\<close> and \<^verbatim>\<open>/ws/alpha/SKILL.md\<close> with the text \<open>alpha_document\<close>\<close>
  "alpha_checkout = Dir [(''ws'', Dir [(''.git'', Dir []),
      (''alpha'', Dir [(''SKILL.md'', File (Some alpha_document))])])]"

definition alpha_skill :: skill where
  \<comment> \<open>what the Fetcher scan of \<open>demo_checkout\<close> returns for \<^verbatim>\<open>pkg-a/SKILL.md\<close>\<close>
  "alpha_skill = \<lparr>sk_id = ''acme/repo1:pkg-a'', sk_name = YStr ''Title'',
     sk_description = YStr ''Body text'', sk_category = YStr ''Tools'', sk_tags = YList [],
     sk_marketplace_id = ''acme/repo1'', sk_repo_owner = ''acme'', sk_repo_name = ''repo1'',
     sk_repo_branch = ''main'', sk_directory = ''pkg-a'',
     sk_readme_url = ''https://github.com/acme/repo1/tree/main/pkg-a''\<rparr>"

definition beta_skill :: skill where
  \<comment> \<open>what \<open>parse_from_file\<close> returns for \<^verbatim>\<open>/ws/a/b/SKILL.md\<close> of \<open>nested_checkout\<close>\<close>
  "beta_skill = \<lparr>sk_id = ''acme/repo1:b'', sk_name = YStr ''Beta'',
     sk_description = YStr ''text'', sk_category = YStr ''Uncategorized'', sk_tags = YList [],
     sk_marketplace_id = ''acme/repo1'', sk_repo_owner = ''acme'', sk_repo_name = ''repo1'',
     sk_repo_branch = ''main'', sk_directory = ''b'',
     sk_readme_url = ''https://github.com/acme/repo1/tree/main/a/b''\<rparr>"

definition alpha_parsed_skill :: skill where
  \<comment> \<open>what \<open>parse_from_file\<close> returns for \<^verbatim>\<open>/ws/alpha/SKILL.md\<close> of \<open>alpha_checkout\<close>\<close>
  "alpha_parsed_skill = \<lparr>sk_id = ''acme/repo1:alpha'', sk_name = YStr ''Alpha'',
     sk_description = YStr ''First'', sk_category = YStr ''Tools'',
     sk_tags = YList [YStr ''x'', YStr ''y''],
     sk_marketplace_id = ''acme/repo1'', sk_repo_owner = ''acme'', sk_repo_name = ''repo1'',
     sk_repo_branch = ''main'', sk_directory = ''alpha'',
     sk_readme_url = ''https://github.com/acme/repo1/tree/main/alpha''\<rparr>"

section \<open>Auxiliary facts\<close>

lemma find_sub_char: "c \<in> set s \<Longrightarrow> \<exists>b a. find_sub [c] s = Some (b, a)"
  by (induction s) (auto simp: startswith_def)

lemma split_colon_two:
  "CHR '':'' \<in> set line \<Longrightarrow> \<exists>key val. split_max '':'' 1 line = [key, val]"
  using find_sub_char [of "CHR '':''" line] by (auto simp: numeral_eq_Suc)

lemma set_map_filter: "s \<in> set (List.map_filter f xs) \<longleftrightarrow> (\<exists>x \<in> set xs. f x = Some s)"
  by (induction xs) (auto split: option.splits)

lemma path_parents_second_last:
  assumes "2 \<le> length p"
  shows "path_parents p ! (length (path_parents p) - 2) = take 1 p"
proof -
  have idx: "rev [0..<length p] ! (length p - 2) = [0..<length p] ! (length p - Suc (length p - 2))"
    using assms by (subst rev_nth) auto
  have "length p - Suc (length p - 2) = 1" using assms by arith
  with idx have one: "rev [0..<length p] ! (length p - 2) = 1" using assms by simp
  have "path_parents p ! (length (path_parents p) - 2)
          = take (rev [0..<length p] ! (length p - 2)) p"
    using assms by (simp add: path_parents_def)
  then show ?thesis by (simp only: one)
qed

lemma scan_entry_id:
  "scan_entry repo_owner repo_name repo_branch repo_path scan_dir (rel, f) = Some s \<Longrightarrow>
   sk_id s = repo_owner @ ''/'' @ repo_name @ '':'' @ replace_char BACKSLASH (CHR ''/'') (rel_str rel)"
  by (auto simp: scan_entry_def build_skill_def relative_to_def Let_def split: option.splits)

lemma parse_from_file_id:
  "parse_from_file safe_load fs file_path rc = Inr (Some s) \<Longrightarrow>
   sk_id s = rc_owner rc @ ''/'' @ rc_name rc @ '':''
              @ key_directory (path_parent file_path) (find_repo_root fs (path_parent file_path)) rc"
  by (auto simp: parse_from_file_def create_entity_key_def Let_def split: if_splits sum.splits)

lemma parse_from_file_skips_cam:
  "startswith (path_name (path_parent file_path)) ''cam_'' \<Longrightarrow>
   parse_from_file safe_load fs file_path rc = Inr None"
  by (simp add: parse_from_file_def Let_def)

lemma heuristic_name_other:
  "k \<noteq> YStr ''name'' \<Longrightarrow> heuristic_name meta content k = meta k"
  by (simp add: heuristic_name_def split: option.splits)

lemma heuristic_description_other:
  "k \<noteq> YStr ''description'' \<Longrightarrow> heuristic_description meta content k = meta k"
  by (simp add: heuristic_description_def Let_def)

lemma heuristic_name_truthy:
  "get_truthy meta ''name'' \<Longrightarrow> heuristic_name meta content = meta"
  by (simp add: heuristic_name_def)

lemma heuristic_description_truthy:
  "get_truthy meta ''description'' \<Longrightarrow> heuristic_description meta content = meta"
  by (simp add: heuristic_description_def)

lemma parse_metadata_content:
  "parse_metadata safe_load (Some content) =
     Inr (heuristic_description
            (heuristic_name (fst (frontmatter_stage safe_load default_meta content))
               (snd (frontmatter_stage safe_load default_meta content)))
            (snd (frontmatter_stage safe_load default_meta content)))"
  by (simp add: parse_metadata_def parse_metadata_body_def split: prod.splits)

lemma frontmatter_stage_merged:
  assumes "startswith content ''---''"
    and "split_max ''---'' 2 content = [p0, p1, p2]"
    and "load_frontmatter safe_load p1 = Inr (YDict kvs)"
    and "kvs \<noteq> []"
  shows "frontmatter_stage safe_load meta content = (meta ++ map_of kvs, p2)"
  using assms by (simp add: frontmatter_stage_def merge_frontmatter_def)


lemma frontmatter_stage_raised:
  assumes "load_frontmatter safe_load p1 = Inl e"
    and "split_max ''---'' 2 content = [p0, p1, p2]"
  shows "frontmatter_stage safe_load meta content = (meta, content)"
  using assms by (simp add: frontmatter_stage_def merge_frontmatter_def)

lemma extract_category_nonempty: "extract_category content \<noteq> []"
  by (simp add: extract_category_def Let_def split: option.splits)

lemma collect_description_no_name:
  "\<not> (case nm of None \<Rightarrow> False | Some v \<Rightarrow> truthy v) \<Longrightarrow>
   collect_description nm False acc ls = acc"
  by (induction ls arbitrary: acc) (auto simp: Let_def split: option.splits)

lemma text_only_meta_category:
  "text_only_meta content (YStr ''category'') = Some (YStr ''Uncategorized'')"
  by (simp add: text_only_meta_def heuristic_description_other heuristic_name_other default_meta_def)

lemma text_only_meta_tags:
  "text_only_meta content (YStr ''tags'') = Some (YList [])"
  by (simp add: text_only_meta_def heuristic_description_other heuristic_name_other default_meta_def)

lemma text_only_meta_no_header:
  assumes "first_header (py_split [NL] content) = None"
  shows "text_only_meta content = default_meta"
proof -
  have n: "heuristic_name default_meta content = default_meta"
    using assms by (simp add: heuristic_name_def)
  have "collect_description (default_meta (YStr ''name'')) False [] (py_split [NL] content) = []"
    by (rule collect_description_no_name) (simp add: default_meta_def)
  then have "heuristic_description default_meta content = default_meta"
    by (simp add: heuristic_description_def)
  with n show ?thesis by (simp add: text_only_meta_def)
qed

lemma parse_metadata_no_delimiter:
  "\<not> startswith content ''---'' \<Longrightarrow>
   parse_metadata safe_load (Some content) = Inr (text_only_meta content)"
  by (simp add: parse_metadata_content frontmatter_stage_def text_only_meta_def)

lemma parse_metadata_load_raised:
  assumes "split_max ''---'' 2 content = [p0, p1, p2]"
    and "load_frontmatter safe_load p1 = Inl e"
  shows "parse_metadata safe_load (Some content) = Inr (text_only_meta content)"
  unfolding parse_metadata_content frontmatter_stage_raised [OF assms(2) assms(1)]
  by (simp add: text_only_meta_def)

lemma parse_skill_md_fields:
  "\<exists>sd. parse_skill_md (Some content) = Some sd \<and> sd_category sd \<noteq> []
        \<and> sd_name sd = first_header (py_split [NL] content)
        \<and> (first_header (py_split [NL] content) = None \<longrightarrow> sd_description sd = None)"
  by (simp add: parse_skill_md_def Let_def extract_category_nonempty collect_description_no_name)

lemma parse_from_file_name:
  assumes "parse_from_file safe_load fs file_path rc = Inr (Some s)"
    and "read_text (walk fs [] file_path) = Some content"
  shows "\<exists>meta. parse_metadata safe_load (Some content) = Inr meta
           \<and> sk_name s = get_default meta ''name'' (YStr (sk_directory s))"
  using assms
  by (auto simp: parse_from_file_def Let_def split: if_splits sum.splits)

lemma scan_entry_name:
  assumes "scan_entry repo_owner repo_name repo_branch repo_path scan_dir (rel, File (Some text)) = Some s"
  shows "sk_name s = (case first_header (py_split [NL] text) of
                        Some h \<Rightarrow> YStr h
                      | None \<Rightarrow> YStr (if rel = [] then repo_name else last rel))"
  using assms
  by (auto simp: scan_entry_def build_skill_def relative_to_def read_text_def parse_skill_md_def
        path_name_def Let_def rel_str_def replace_char_def BACKSLASH_def
        split: option.splits if_splits)

lemma find_sub_char_Some:
  "find_sub [c] s = Some (b, a) \<Longrightarrow> c \<notin> set b \<and> s = b @ c # a"
proof (induction s arbitrary: b)
  case Nil
  then show ?case by simp
next
  case (Cons x xs)
  show ?case
  proof (cases "x = c")
    case True
    with Cons.prems show ?thesis by (simp add: startswith_def)
  next
    case False
    with Cons.prems obtain b' where b': "find_sub [c] xs = Some (b', a)" and b: "b = x # b'"
      by (auto simp: startswith_def split: option.splits)
    from Cons.IH [OF b'] b False show ?thesis by simp
  qed
qed

lemma find_sub_char_absent: "c \<notin> set x \<Longrightarrow> find_sub [c] x = None"
  by (induction x) (auto simp: startswith_def)

lemma find_sub_char_None: "find_sub [c] s = None \<Longrightarrow> c \<notin> set s"
  by (induction s) (auto simp: startswith_def split: if_splits option.splits)

lemma find_sub_char_first: "c \<notin> set x \<Longrightarrow> find_sub [c] (x @ c # r) = Some (x, r)"
  by (induction x) (auto simp: startswith_def)

lemma split_max_char_free:
  "length s \<le> n \<Longrightarrow> x \<in> set (split_max [c] n s) \<Longrightarrow> c \<notin> set x"
proof (induction n arbitrary: s)
  case 0
  then show ?case by simp
next
  case (Suc n)
  show ?case
  proof (cases "find_sub [c] s")
    case None
    with Suc.prems find_sub_char_None [OF None] show ?thesis by simp
  next
    case (Some ba)
    obtain b a where ba: "ba = (b, a)" by (cases ba)
    from Some ba find_sub_char_Some have s: "c \<notin> set b" "s = b @ c # a" by blast+
    from s Suc.prems(1) have "length a \<le> n" by simp
    from Suc.IH [OF this] Suc.prems(2) Some ba s show ?thesis by auto
  qed
qed

lemma py_split_char_free: "x \<in> set (py_split [c] s) \<Longrightarrow> c \<notin> set x"
  unfolding py_split_def by (rule split_max_char_free [of s "length s"]) simp_all

lemma split_max_nonempty: "split_max sep n s \<noteq> []"
  by (cases n) (auto split: option.splits)

lemma py_join_char_length: "length ls \<le> Suc (length (py_join [c] ls))"
  by (induction "[c]" ls rule: py_join.induct) auto

lemma split_max_join:
  "ls \<noteq> [] \<Longrightarrow> \<forall>x \<in> set ls. c \<notin> set x \<Longrightarrow> length ls \<le> Suc n \<Longrightarrow>
   split_max [c] n (py_join [c] ls) = ls"
proof (induction "[c]" ls arbitrary: n rule: py_join.induct)
  case 1
  then show ?case by simp
next
  case (2 x)
  then show ?case by (cases n) (simp_all add: find_sub_char_absent)
next
  case (3 x y ys)
  from "3.prems"(3) obtain m where n: "n = Suc m" by (cases n) auto
  from "3.prems"(2) have fx: "c \<notin> set x" by simp
  have "find_sub [c] (x @ c # py_join [c] (y # ys)) = Some (x, py_join [c] (y # ys))"
    using fx by (rule find_sub_char_first)
  moreover have "split_max [c] m (py_join [c] (y # ys)) = y # ys"
    using "3.prems" n by (intro "3.hyps") auto
  ultimately show ?case using n by simp
qed

lemma py_split_join:
  "ls \<noteq> [] \<Longrightarrow> \<forall>x \<in> set ls. c \<notin> set x \<Longrightarrow> py_split [c] (py_join [c] ls) = ls"
  unfolding py_split_def using py_join_char_length [of ls c] by (intro split_max_join) auto

lemma set_py_strip: "set (py_strip s) \<subseteq> set s"
proof -
  have "set (dropWhile isspace (rev (dropWhile isspace s))) \<subseteq> set (rev (dropWhile isspace s))"
    by (meson set_dropWhileD subsetI)
  also have "\<dots> \<subseteq> set s" using set_dropWhileD by fastforce
  finally show ?thesis by (simp add: py_strip_def)
qed

lemma tokenize_chars:
  "tokenize cs items cur d = (items', cur') \<Longrightarrow>
   set cs \<subseteq> S \<Longrightarrow> set cur \<subseteq> S \<Longrightarrow> (\<forall>x \<in> set items. set x \<subseteq> S) \<Longrightarrow>
   set cur' \<subseteq> S \<and> (\<forall>x \<in> set items'. set x \<subseteq> S)"
proof (induction cs items cur d rule: tokenize.induct)
  case (1 items current_item bracket_depth)
  then show ?case by simp
next
  case (2 c cs items current_item bracket_depth)
  have st: "set (py_strip current_item) \<subseteq> S"
    using set_py_strip [of current_item] "2.prems"(3) by blast
  show ?case
    using "2.IH" "2.prems" st by (auto split: if_splits)
qed

lemma split_items_chars: "x \<in> set (split_items v) \<Longrightarrow> set x \<subseteq> set v"
proof -
  assume x: "x \<in> set (split_items v)"
  obtain items cur where t: "tokenize (butlast (tl v)) [] [] 0 = (items, cur)"
    by (cases "tokenize (butlast (tl v)) [] [] 0")
  have sub: "set (butlast (tl v)) \<subseteq> set v"
    by (cases v) (auto dest: in_set_butlastD)
  from tokenize_chars [OF t sub] have c: "set cur \<subseteq> set v" and i: "\<forall>y \<in> set items. set y \<subseteq> set v"
    by auto
  from c set_py_strip [of cur] have "set (py_strip cur) \<subseteq> set v" by blast
  with x t i show ?thesis by (auto simp: split_items_def split: if_splits)
qed

lemma py_join_chars: "set (py_join sep ls) \<subseteq> set sep \<union> (\<Union>x \<in> set ls. set x)"
  by (induction sep ls rule: py_join.induct) auto

lemma quote_item_chars: "set (quote_item x) \<subseteq> insert (CHR ''\"'') (set x)"
  by (auto simp: quote_item_def)

lemma requote_sequence_free: "NL \<notin> set v \<Longrightarrow> NL \<notin> set (requote_sequence v)"
proof
  assume v: "NL \<notin> set v" and "NL \<in> set (requote_sequence v)"
  then have "NL \<in> set (py_join '', '' (map quote_item (split_items v)))"
    by (auto simp: requote_sequence_def NL_def)
  with py_join_chars [of "'', ''" "map quote_item (split_items v)"]
  obtain x where x: "x \<in> set (split_items v)" and "NL \<in> set (quote_item x)"
    by (auto simp: NL_def)
  with quote_item_chars [of x] have "NL \<in> set x" by (auto simp: NL_def)
  with split_items_chars [OF x] v show False by blast
qed

lemma repair_value_free:
  assumes "NL \<notin> set v"
  shows "NL \<notin> set (repair_value v)"
proof -
  have q: "NL \<notin> set (''\"'' @ v @ ''\"'')" using assms by (simp add: NL_def)
  show ?thesis
    unfolding repair_value_def using assms q requote_sequence_free [OF assms] by simp
qed

lemma repair_line_free: "NL \<notin> set l \<Longrightarrow> NL \<notin> set (repair_line l)"
proof (cases "CHR '':'' \<in> set l \<and> \<not> startswith (py_strip l) ''#''")
  case False
  assume "NL \<notin> set l"
  with False show ?thesis by (auto simp: repair_line_def)
next
  case True
  assume l: "NL \<notin> set l"
  from True find_sub_char [of "CHR '':''" l] obtain key val where
    f: "find_sub '':'' l = Some (key, val)" by auto
  from find_sub_char_Some [OF f] l have k: "NL \<notin> set key" and v: "NL \<notin> set val" by auto
  from v set_py_strip [of val] have "NL \<notin> set (py_strip val)" by blast
  then have "NL \<notin> set (repair_value (py_strip val))" by (rule repair_value_free)
  with True f k show ?thesis
    by (auto simp: repair_line_def eval_nat_numeral NL_def)
qed

lemma repaired_lines:
  "py_split [NL] (repair_frontmatter fm) = map repair_line (py_split [NL] fm)"
proof -
  have ne: "map repair_line (py_split [NL] fm) \<noteq> []"
    by (simp add: py_split_def split_max_nonempty)
  have "\<forall>x \<in> set (map repair_line (py_split [NL] fm)). NL \<notin> set x"
    using py_split_char_free [of _ NL fm] repair_line_free by auto
  from py_split_join [OF ne this] show ?thesis by (simp add: repair_frontmatter_def)
qed

lemma tokenize_nested:
  "CHR ''['' \<notin> set inner \<Longrightarrow> CHR '']'' \<notin> set inner \<Longrightarrow>
   tokenize (inner @ cs) items cur 1 = tokenize cs items (cur @ inner) 1"
  by (induction inner arbitrary: cur) auto

lemma split_items_nested:
  assumes "CHR ''['' \<notin> set inner" and "CHR '']'' \<notin> set inner"
  shows "split_items (''[foo['' @ inner @ ''], baz]'') = [''foo['' @ inner @ '']'', ''baz'']"
proof -
  have bl: "butlast (tl (''[foo['' @ inner @ ''], baz]'')) = ''foo['' @ inner @ ''], baz''"
    by (simp add: butlast_append)
  have st: "py_strip (''foo['' @ inner @ '']'') = ''foo['' @ inner @ '']''"
    by (simp add: py_strip_def isspace_def)
  have st2: "py_strip '' baz'' = ''baz''" by code_simp
  have "tokenize (''foo['' @ inner @ ''], baz'') [] [] 0
          = tokenize (inner @ ''], baz'') [] ''foo['' 1"
    by simp
  also have "\<dots> = tokenize ''], baz'' [] (''foo['' @ inner) 1"
    using assms by (rule tokenize_nested)
  also have "\<dots> = ([py_strip (''foo['' @ inner @ '']'')], '' baz'')"
    by simp
  finally have tk: "tokenize (''foo['' @ inner @ ''], baz'') [] [] 0
                      = ([''foo['' @ inner @ '']''], '' baz'')"
    by (simp only: st)
  show ?thesis unfolding split_items_def bl tk by (simp add: st2)
qed

lemma parse_metadata_unclosed:
  "length (split_max ''---'' 2 content) < 3 \<Longrightarrow>
   parse_metadata safe_load (Some content) = Inr (text_only_meta content)"
proof -
  assume "length (split_max ''---'' 2 content) < 3"
  then have "merge_frontmatter safe_load default_meta content = Inr (default_meta, content)"
    by (auto simp: merge_frontmatter_def split: list.splits)
  then have "frontmatter_stage safe_load default_meta content = (default_meta, content)"
    by (simp add: frontmatter_stage_def)
  then show ?thesis
    unfolding parse_metadata_content by (simp add: text_only_meta_def)
qed

lemma text_only_meta_name:
  "text_only_meta content (YStr ''name'')
     = Some (YStr (case first_header (py_split [NL] content) of None \<Rightarrow> [] | Some h \<Rightarrow> h))"
  by (simp add: text_only_meta_def heuristic_description_other heuristic_name_def
        default_meta_def get_truthy_def split: option.splits)

lemma text_only_meta_description:
  "text_only_meta content (YStr ''description'')
     = Some (YStr (py_strip (py_join '' ''
         (collect_description (map_option YStr (first_header (py_split [NL] content))) False []
            (py_split [NL] content)))))"
proof (cases "first_header (py_split [NL] content)")
  case None
  then have "text_only_meta content = default_meta" by (rule text_only_meta_no_header)
  moreover have "collect_description None False [] (py_split [NL] content) = []"
    by (rule collect_description_no_name) simp
  ultimately show ?thesis using None by (simp add: default_meta_def py_strip_def)
next
  case (Some h)
  let ?m = "heuristic_name default_meta content"
  have nm: "?m (YStr ''name'') = Some (YStr h)"
    using Some by (simp add: heuristic_name_def get_truthy_def default_meta_def)
  have nt: "\<not> get_truthy ?m ''description''"
    by (simp add: get_truthy_def heuristic_name_other default_meta_def)
  show ?thesis
    using Some nm nt
    by (simp add: text_only_meta_def heuristic_description_def Let_def py_strip_def
          heuristic_name_other default_meta_def)
qed

lemma extract_category_default:
  "category_line (py_split [NL] content) = None \<Longrightarrow>
   emphasis_category_line (py_split [NL] content) = None \<Longrightarrow>
   extract_category content = ''Uncategorized''"
  by (simp add: extract_category_def Let_def)

lemma parse_skill_md_all_fields:
  "\<exists>sd. parse_skill_md (Some content) = Some sd
     \<and> sd_category sd \<noteq> []
     \<and> (category_line (py_split [NL] content) = None
          \<longrightarrow> emphasis_category_line (py_split [NL] content) = None
          \<longrightarrow> sd_category sd = ''Uncategorized'')
     \<and> sd_name sd = first_header (py_split [NL] content)
     \<and> sd_description sd
         = (let description_lines =
                  collect_description (map_option YStr (first_header (py_split [NL] content)))
                    False [] (py_split [NL] content)
            in if description_lines = [] then None
               else Some (py_strip (py_join '' '' description_lines)))
     \<and> (first_header (py_split [NL] content) = None \<longrightarrow> sd_description sd = None)
     \<and> sd_tags sd = (if extract_tags (py_split [NL] content) = [] then None
                      else Some (extract_tags (py_split [NL] content)))"
  by (simp add: parse_skill_md_def Let_def extract_category_nonempty extract_category_default
        collect_description_no_name)

lemma scan_entry_defaults:
  assumes "scan_entry repo_owner repo_name repo_branch repo_path scan_dir (rel, File (Some text)) = Some s"
    and "parse_skill_md (Some text) = Some sd"
  shows "sk_name s = (case sd_name sd of None \<Rightarrow> YStr (sk_directory s) | Some n \<Rightarrow> YStr n)
         \<and> sk_directory s = (if rel = [] then repo_name else last rel)
         \<and> sk_description s = (case sd_description sd of None \<Rightarrow> YStr [] | Some d \<Rightarrow> YStr d)
         \<and> sk_category s = YStr (sd_category sd)
         \<and> sk_tags s = (case sd_tags sd of None \<Rightarrow> YList [] | Some ts \<Rightarrow> YList (map YStr ts))"
  using assms
  by (auto simp: scan_entry_def build_skill_def relative_to_def read_text_def
        path_name_def Let_def rel_str_def replace_char_def BACKSLASH_def
        split: option.splits if_splits)

section \<open>The identity key (C1)\<close>

text \<open>
  C1, as amended. A skill returned by \<open>Fetcher.clone_and_scan_repository\<close> comes from a
  metadata file found under the scan directory, and its id is the owner, a slash, the
  repository name, a colon and the path of the file's directory from the scan directory
  (\<open>.\<close> for the scan directory itself, backslashes replaced by slashes). A skill returned
  by \<open>SkillParser.parse_from_file\<close> has, after the colon, the directory name chosen for
  the key instead: the repository name (or \<open>.\<close>) at the repository root, the bare name of
  the directory elsewhere.
\<close>

theorem skill_id_derivation:
  "(s \<in> set (clone_and_scan_repository (Cloned fs) temp_path repo_owner repo_name repo_branch skills_path)
      \<longrightarrow> (\<exists>n rel f. walk fs [] (scan_directory (temp_path @ [''repo'']) skills_path) = Some n
             \<and> (rel, f) \<in> set (rglob n [])
             \<and> sk_id s = repo_owner @ ''/'' @ repo_name @ '':''
                          @ replace_char BACKSLASH (CHR ''/'') (rel_str rel)))
   \<and> (parse_from_file safe_load fs' file_path rc = Inr (Some s')
      \<longrightarrow> sk_id s' = rc_owner rc @ ''/'' @ rc_name rc @ '':''
             @ key_directory (path_parent file_path) (find_repo_root fs' (path_parent file_path)) rc)"
proof (intro conjI impI)
  assume mem: "s \<in> set (clone_and_scan_repository (Cloned fs) temp_path repo_owner repo_name repo_branch skills_path)"
  have "\<exists>n. walk fs [] (scan_directory (temp_path @ [''repo'']) skills_path) = Some n
      \<and> s \<in> set (List.map_filter (scan_entry repo_owner repo_name repo_branch (temp_path @ [''repo''])
                  (scan_directory (temp_path @ [''repo'']) skills_path)) (rglob n []))"
  proof (cases "walk fs [] (scan_directory (temp_path @ [''repo'']) skills_path)")
    case None
    then have "clone_and_scan_repository (Cloned fs) temp_path repo_owner repo_name repo_branch skills_path = []"
      by (simp add: clone_and_scan_repository_def Let_def)
    with mem show ?thesis by simp
  next
    case (Some n)
    then have "clone_and_scan_repository (Cloned fs) temp_path repo_owner repo_name repo_branch skills_path = []
      \<or> clone_and_scan_repository (Cloned fs) temp_path repo_owner repo_name repo_branch skills_path
          = List.map_filter (scan_entry repo_owner repo_name repo_branch (temp_path @ [''repo''])
                  (scan_directory (temp_path @ [''repo'']) skills_path)) (rglob n [])"
      by (simp add: clone_and_scan_repository_def Let_def)
    with mem Some show ?thesis by auto
  qed
  then obtain n m where n: "walk fs [] (scan_directory (temp_path @ [''repo'']) skills_path) = Some n"
    and m: "m \<in> set (rglob n [])"
    and e: "scan_entry repo_owner repo_name repo_branch (temp_path @ [''repo''])
              (scan_directory (temp_path @ [''repo'']) skills_path) m = Some s"
    unfolding set_map_filter by blast
  obtain rel f where rf: "m = (rel, f)" by (cases m)
  from e rf have "sk_id s = repo_owner @ ''/'' @ repo_name @ '':''
                    @ replace_char BACKSLASH (CHR ''/'') (rel_str rel)"
    using scan_entry_id by blast
  with n m rf show "\<exists>n rel f. walk fs [] (scan_directory (temp_path @ [''repo'']) skills_path) = Some n
             \<and> (rel, f) \<in> set (rglob n [])
             \<and> sk_id s = repo_owner @ ''/'' @ repo_name @ '':''
                          @ replace_char BACKSLASH (CHR ''/'') (rel_str rel)"
    by blast
next
  assume "parse_from_file safe_load fs' file_path rc = Inr (Some s')"
  then show "sk_id s' = rc_owner rc @ ''/'' @ rc_name rc @ '':''
             @ key_directory (path_parent file_path) (find_repo_root fs' (path_parent file_path)) rc"
    by (rule parse_from_file_id)
qed

theorem skill_id_derivation_witness:
  "alpha_skill \<in> set (clone_and_scan_repository (Cloned demo_checkout) [''tmp''] ''acme'' ''repo1'' ''main'' None)
   \<and> (\<exists>n rel f. walk demo_checkout [] (scan_directory ([''tmp''] @ [''repo'']) None) = Some n
          \<and> (rel, f) \<in> set (rglob n [])
          \<and> sk_id alpha_skill = ''acme'' @ ''/'' @ ''repo1'' @ '':''
                                  @ replace_char BACKSLASH (CHR ''/'') (rel_str rel))
   \<and> parse_from_file no_yaml nested_checkout [''ws'', ''a'', ''b'', ''SKILL.md''] acme_repo
        = Inr (Some beta_skill)
   \<and> sk_id beta_skill = rc_owner acme_repo @ ''/'' @ rc_name acme_repo @ '':''
        @ key_directory (path_parent [''ws'', ''a'', ''b'', ''SKILL.md''])
            (find_repo_root nested_checkout (path_parent [''ws'', ''a'', ''b'', ''SKILL.md''])) acme_repo"
proof -
  have h1: "alpha_skill \<in> set (clone_and_scan_repository (Cloned demo_checkout) [''tmp''] ''acme'' ''repo1'' ''main'' None)"
    by code_simp
  have h2: "parse_from_file no_yaml nested_checkout [''ws'', ''a'', ''b'', ''SKILL.md''] acme_repo
              = Inr (Some beta_skill)"
    by code_simp
  show ?thesis
    using h1 h2
      skill_id_derivation [of alpha_skill demo_checkout "[''tmp'']" "''acme''" "''repo1''" "''main''" None
        no_yaml nested_checkout "[''ws'', ''a'', ''b'', ''SKILL.md'']" acme_repo beta_skill]
    by blast
qed

text \<open>
  The claim as stated fails for \<open>parse_from_file\<close>: for \<^verbatim>\<open>/ws/a/b/SKILL.md\<close> in a
  repository rooted at \<^verbatim>\<open>/ws\<close> the relative directory is \<open>a/b\<close> and the id ends in \<open>b\<close>.
\<close>

theorem parser_id_counterexample:
  "(case parse_from_file no_yaml nested_checkout [''ws'', ''a'', ''b'', ''SKILL.md''] acme_repo of
      Inr (Some s) \<Rightarrow> sk_id s = ''acme/repo1:b''
    | _ \<Rightarrow> False)
   \<and> source_directory nested_checkout [''ws'', ''a'', ''b''] acme_repo = ''a/b''
   \<and> ''acme/repo1:b'' \<noteq> rc_owner acme_repo @ ''/'' @ rc_name acme_repo @ '':'' @ ''a/b''"
  by code_simp

section \<open>The name of a skill (C2)\<close>

text \<open>
  C2, as amended. For \<open>SkillParser.parse_from_file\<close>: when the frontmatter block loads as
  a mapping with a name that is not empty, the skill has this name; and when the
  dictionary left by the frontmatter step has no such name and the remaining text has a
  level-1 header, the skill's name is the text of the first one. For
  \<open>Fetcher.clone_and_scan_repository\<close>, which does not read frontmatter: the name is the
  text of the first level-1 header of the file when there is one, and otherwise the name
  of the directory (the repository name for the scan directory itself).
\<close>

theorem skill_name_sources:
  "(parse_from_file safe_load fs file_path rc = Inr (Some s)
      \<longrightarrow> read_text (walk fs [] file_path) = Some content
      \<longrightarrow> startswith content ''---'' \<longrightarrow> split_max ''---'' 2 content = [p0, p1, p2]
      \<longrightarrow> load_frontmatter safe_load p1 = Inr (YDict kvs)
      \<longrightarrow> map_of kvs (YStr ''name'') = Some n \<longrightarrow> truthy n
      \<longrightarrow> sk_name s = n)
   \<and> (parse_from_file safe_load fs file_path rc = Inr (Some s)
      \<longrightarrow> read_text (walk fs [] file_path) = Some content
      \<longrightarrow> frontmatter_stage safe_load default_meta content = (meta, body)
      \<longrightarrow> \<not> get_truthy meta ''name''
      \<longrightarrow> first_header (py_split [NL] body) = Some h
      \<longrightarrow> sk_name s = YStr h)
   \<and> (scan_entry repo_owner repo_name repo_branch repo_path scan_dir (rel, File (Some text)) = Some s'
      \<longrightarrow> sk_name s' = (case first_header (py_split [NL] text) of
                           Some h' \<Rightarrow> YStr h'
                         | None \<Rightarrow> YStr (if rel = [] then repo_name else last rel)))"
proof (intro conjI impI)
  assume p: "parse_from_file safe_load fs file_path rc = Inr (Some s)"
    and r: "read_text (walk fs [] file_path) = Some content"
    and sw: "startswith content ''---''" and sp: "split_max ''---'' 2 content = [p0, p1, p2]"
    and ld: "load_frontmatter safe_load p1 = Inr (YDict kvs)"
    and nm: "map_of kvs (YStr ''name'') = Some n" and tn: "truthy n"
  from nm have ne: "kvs \<noteq> []" by auto
  let ?m = "default_meta ++ map_of kvs"
  have st: "frontmatter_stage safe_load default_meta content = (?m, p2)"
    using frontmatter_stage_merged [OF sw sp ld ne] .
  have gt: "get_truthy ?m ''name''" using nm tn by (simp add: get_truthy_def)
  have pm: "parse_metadata safe_load (Some content) = Inr (heuristic_description ?m p2)"
    unfolding parse_metadata_content st by (simp add: heuristic_name_truthy [OF gt])
  have "heuristic_description ?m p2 (YStr ''name'') = Some n"
    using nm by (simp add: heuristic_description_other)
  with pm parse_from_file_name [OF p r] show "sk_name s = n"
    by (auto simp: get_default_def)
next
  assume p: "parse_from_file safe_load fs file_path rc = Inr (Some s)"
    and r: "read_text (walk fs [] file_path) = Some content"
    and st: "frontmatter_stage safe_load default_meta content = (meta, body)"
    and nt: "\<not> get_truthy meta ''name''"
    and fh: "first_header (py_split [NL] body) = Some h"
  have pm: "parse_metadata safe_load (Some content)
              = Inr (heuristic_description (heuristic_name meta body) body)"
    unfolding parse_metadata_content st by simp
  have "heuristic_description (heuristic_name meta body) body (YStr ''name'') = Some (YStr h)"
    using nt fh by (simp add: heuristic_description_other heuristic_name_def)
  with pm parse_from_file_name [OF p r] show "sk_name s = YStr h"
    by (auto simp: get_default_def)
next
  assume "scan_entry repo_owner repo_name repo_branch repo_path scan_dir (rel, File (Some text)) = Some s'"
  then show "sk_name s' = (case first_header (py_split [NL] text) of
                           Some h' \<Rightarrow> YStr h'
                         | None \<Rightarrow> YStr (if rel = [] then repo_name else last rel))"
    by (rule scan_entry_name)
qed

theorem skill_name_sources_witness:
  "parse_from_file (one_document_loader alpha_frontmatter (YDict alpha_mapping)) alpha_checkout
       [''ws'', ''alpha'', ''SKILL.md''] acme_repo = Inr (Some alpha_parsed_skill)
   \<and> read_text (walk alpha_checkout [] [''ws'', ''alpha'', ''SKILL.md'']) = Some alpha_document
   \<and> startswith alpha_document ''---''
   \<and> split_max ''---'' 2 alpha_document = [[], alpha_frontmatter, [NL] @ ''# Title'' @ [NL] @ ''Body text'' @ [NL]]
   \<and> load_frontmatter (one_document_loader alpha_frontmatter (YDict alpha_mapping)) alpha_frontmatter
        = Inr (YDict alpha_mapping)
   \<and> map_of alpha_mapping (YStr ''name'') = Some (YStr ''Alpha'') \<and> truthy (YStr ''Alpha'')
   \<and> sk_name alpha_parsed_skill = YStr ''Alpha''
   \<and> parse_from_file no_yaml nested_checkout [''ws'', ''a'', ''b'', ''SKILL.md''] acme_repo
        = Inr (Some beta_skill)
   \<and> read_text (walk nested_checkout [] [''ws'', ''a'', ''b'', ''SKILL.md'']) = Some (''# Beta'' @ [NL] @ ''text'')
   \<and> frontmatter_stage no_yaml default_meta (''# Beta'' @ [NL] @ ''text'')
        = (default_meta, ''# Beta'' @ [NL] @ ''text'')
   \<and> \<not> get_truthy default_meta ''name''
   \<and> first_header (py_split [NL] (''# Beta'' @ [NL] @ ''text'')) = Some ''Beta''
   \<and> sk_name beta_skill = YStr ''Beta''
   \<and> scan_entry ''acme'' ''repo1'' ''main'' [''tmp'', ''repo''] [''tmp'', ''repo'']
        ([''pkg-a''], File (Some pkg_a_text)) = Some alpha_skill
   \<and> sk_name alpha_skill = (case first_header (py_split [NL] pkg_a_text) of
                              Some h \<Rightarrow> YStr h
                            | None \<Rightarrow> YStr (if [''pkg-a''] = [] then ''repo1'' else last [''pkg-a'']))"
proof -
  let ?L = "one_document_loader alpha_frontmatter (YDict alpha_mapping)"
  let ?beta = "''# Beta'' @ [NL] @ ''text''"
  have a1: "parse_from_file ?L alpha_checkout [''ws'', ''alpha'', ''SKILL.md''] acme_repo
              = Inr (Some alpha_parsed_skill)"
    by code_simp
  have a2: "read_text (walk alpha_checkout [] [''ws'', ''alpha'', ''SKILL.md'']) = Some alpha_document"
    by code_simp
  have a3: "startswith alpha_document ''---''" by code_simp
  have a4: "split_max ''---'' 2 alpha_document
              = [[], alpha_frontmatter, [NL] @ ''# Title'' @ [NL] @ ''Body text'' @ [NL]]"
    by code_simp
  have a5: "load_frontmatter ?L alpha_frontmatter = Inr (YDict alpha_mapping)"
    by (simp add: load_frontmatter_def one_document_loader_def)
  have a6: "map_of alpha_mapping (YStr ''name'') = Some (YStr ''Alpha'')"
    by (simp add: alpha_mapping_def)
  have a7: "truthy (YStr ''Alpha'')" by simp
  have b1: "parse_from_file no_yaml nested_checkout [''ws'', ''a'', ''b'', ''SKILL.md''] acme_repo
              = Inr (Some beta_skill)"
    by code_simp
  have b2: "read_text (walk nested_checkout [] [''ws'', ''a'', ''b'', ''SKILL.md'']) = Some ?beta"
    by code_simp
  have b3: "frontmatter_stage no_yaml default_meta ?beta = (default_meta, ?beta)"
    by (simp add: frontmatter_stage_def startswith_def)
  have b4: "\<not> get_truthy default_meta ''name''"
    by (simp add: get_truthy_def default_meta_def)
  have b5: "first_header (py_split [NL] ?beta) = Some ''Beta''" by code_simp
  have c1: "scan_entry ''acme'' ''repo1'' ''main'' [''tmp'', ''repo''] [''tmp'', ''repo'']
              ([''pkg-a''], File (Some pkg_a_text)) = Some alpha_skill"
    by code_simp
  have ra: "sk_name alpha_parsed_skill = YStr ''Alpha''"
    using a1 a2 a3 a4 a5 a6 a7
      skill_name_sources [of ?L alpha_checkout "[''ws'', ''alpha'', ''SKILL.md'']" acme_repo
        alpha_parsed_skill alpha_document "[]" alpha_frontmatter
        "[NL] @ ''# Title'' @ [NL] @ ''Body text'' @ [NL]" alpha_mapping "YStr ''Alpha''"]
    by blast
  have rb: "sk_name beta_skill = YStr ''Beta''"
    using b1 b2 b3 b4 b5
      skill_name_sources [of no_yaml nested_checkout "[''ws'', ''a'', ''b'', ''SKILL.md'']" acme_repo
        beta_skill ?beta _ _ _ _ _ default_meta ?beta "''Beta''"]
    by blast
  have rc: "sk_name alpha_skill = (case first_header (py_split [NL] pkg_a_text) of
                              Some h \<Rightarrow> YStr h
                            | None \<Rightarrow> YStr (if [''pkg-a''] = [] then ''repo1'' else last [''pkg-a'']))"
    using c1
      skill_name_sources [of _ _ _ _ _ _ _ _ _ _ _ _ _ _ "''acme''" "''repo1''" "''main''"
        "[''tmp'', ''repo'']" "[''tmp'', ''repo'']" "[''pkg-a'']" pkg_a_text alpha_skill]
    by blast
  from a1 a2 a3 a4 a5 a6 a7 ra b1 b2 b3 b4 b5 rb c1 rc show ?thesis by blast
qed

text \<open>
  The claim as stated fails in both variants. The Fetcher scan of \<^verbatim>\<open>pkg-a/SKILL.md\<close>,
  whose frontmatter names the skill \<open>Alpha\<close>, returns the header text \<open>Title\<close>. And
  \<open>parse_from_file\<close>, for a text with no frontmatter and no header, returns the empty
  name and not the directory name \<open>demo\<close>: \<open>meta\<close> always holds the key \<open>name\<close>, so
  the default of \<open>meta.get("name", directory)\<close> is never used.
\<close>

theorem skill_name_counterexample:
  "map sk_name (clone_and_scan_repository (Cloned demo_checkout) [''tmp''] ''acme'' ''repo1'' ''main'' (Some ''pkg-a''))
     = [YStr ''Title'']
   \<and> YStr ''Title'' \<noteq> YStr ''Alpha''
   \<and> (case parse_from_file no_yaml bare_tree [''srv'', ''skills'', ''demo'', ''SKILL.md''] acme_repo of
         Inr (Some s) \<Rightarrow> sk_name s = YStr [] \<and> sk_directory s = ''demo''
       | _ \<Rightarrow> False)"
  by code_simp

section \<open>Directories of generated artifacts (C3)\<close>

text \<open>
  C3 at the input that breaks it. \<open>SkillParser.parse_from_file\<close> returns nothing for a
  directory whose name starts with \<open>cam_\<close> (lemma \<open>parse_from_file_skips_cam\<close>), but
  \<open>Fetcher.clone_and_scan_repository\<close> has no such test: scanning a checkout that holds
  \<^verbatim>\<open>cam_cache/SKILL.md\<close> returns a skill for it.
\<close>

theorem fetcher_scans_cam_directory:
  "map sk_id (clone_and_scan_repository (Cloned demo_checkout) [''tmp''] ''acme'' ''repo1'' ''main'' None)
     = [''acme/repo1:.'', ''acme/repo1:pkg-a'', ''acme/repo1:cam_cache'']
   \<and> map sk_directory (clone_and_scan_repository (Cloned demo_checkout) [''tmp''] ''acme'' ''repo1'' ''main'' None)
     = [''repo1'', ''pkg-a'', ''cam_cache'']"
  by code_simp

section \<open>The repository root without a marker (C4)\<close>

text \<open>
  C4, as amended. When neither the metadata file's directory nor any directory above it
  holds \<^verbatim>\<open>.git\<close>, the root is \<open>skill_dir.parents[-2]\<close>, the top-level directory of the
  path, when the directory lies at least two levels below the file-system root, and the
  file-system root otherwise. It is the metadata file's directory only when that directory is
  the file-system root.
\<close>

theorem root_fallback:
  assumes "no_marker fs skill_dir"
  shows "find_repo_root fs skill_dir = (if 2 \<le> length skill_dir then take 1 skill_dir else [])
         \<and> (find_repo_root fs skill_dir = skill_dir \<longleftrightarrow> skill_dir = [])"
proof -
  have len: "length (path_parents skill_dir) = length skill_dir"
    by (simp add: path_parents_def)
  have short: "\<not> 2 \<le> length skill_dir \<Longrightarrow> path_parent skill_dir = []"
    by (cases skill_dir rule: rev_cases) (auto simp: path_parent_def not_le)
  have root: "find_repo_root fs skill_dir = (if 2 \<le> length skill_dir then take 1 skill_dir else [])"
    using assms path_parents_second_last [of skill_dir] short
    by (simp add: find_repo_root_def no_marker_def len)
  have "(if 2 \<le> length skill_dir then take 1 skill_dir else []) = skill_dir \<longleftrightarrow> skill_dir = []"
    by (cases skill_dir) auto
  with root show ?thesis by simp
qed

theorem root_fallback_witness:
  "no_marker bare_tree [''srv'', ''skills'', ''demo'']
   \<and> find_repo_root bare_tree [''srv'', ''skills'', ''demo''] = [''srv'']"
proof -
  have h: "no_marker bare_tree [''srv'', ''skills'', ''demo'']" by code_simp
  show ?thesis using h root_fallback [OF h] by simp
qed

text \<open>
  The claim as stated fails: for \<^verbatim>\<open>/srv/skills/demo/SKILL.md\<close> with no marker anywhere
  the root is \<^verbatim>\<open>/srv\<close>, not \<^verbatim>\<open>/srv/skills/demo\<close>.
\<close>

theorem root_is_not_parent_counterexample:
  "no_marker bare_tree [''srv'', ''skills'', ''demo'']
   \<and> find_repo_root bare_tree [''srv'', ''skills'', ''demo''] \<noteq> [''srv'', ''skills'', ''demo'']"
  by code_simp

section \<open>The category floor (C5)\<close>

text \<open>
  C5 at the input that breaks it. The frontmatter of \<^verbatim>\<open>/ws/tool/SKILL.md\<close> is the line
  \<^verbatim>\<open>category:\<close>, which a YAML loader reads as the mapping of \<open>category\<close> to the null
  value. \<open>meta.update\<close> overwrites the default with it, \<open>meta.get("category",
  "Uncategorized")\<close> finds the key, and the \<open>Skill\<close> built by \<open>parse_from_file\<close> has the
  null value as its category. \<open>Fetcher._parse_skill_md\<close> ends with \<open>category or
  "Uncategorized"\<close> and never returns an empty category (lemma
  \<open>extract_category_nonempty\<close>).
\<close>

theorem null_category_reaches_skill:
  "(case parse_from_file
           (one_document_loader ([NL] @ ''category:'' @ [NL]) (YDict [(YStr ''category'', YNone)]))
           null_category_checkout [''ws'', ''tool'', ''SKILL.md''] acme_repo of
      Inr (Some s) \<Rightarrow> sk_category s = YNone \<and> sk_name s = YStr ''Tool''
    | _ \<Rightarrow> False)"
  by code_simp

section \<open>The extractors never raise (C6)\<close>

text \<open>
  C6, as amended. \<open>SkillParser._parse_metadata\<close> returns a dictionary for every loader
  and every file, readable or not: the defaults for an unreadable file. When the load of
  the frontmatter raises, when the delimiter that opens the text never comes again, and
  when the text does not start with the delimiter, the result is what the heuristics make
  of the defaults and the whole text: \<open>category\<close> is \<open>Uncategorized\<close>, \<open>tags\<close> is empty,
  the name is the text of the first level-1 header and the description the lines collected
  after it, both the empty string when there is no such header.
  \<open>Fetcher._parse_skill_md\<close> returns normally too: \<open>None\<close> for an unreadable file and
  otherwise a dictionary whose category is never empty, \<open>Uncategorized\<close> when no line
  carries a category marker, and which holds no \<open>name\<close>, no \<open>description\<close> and no
  \<open>tags\<close> when it finds none. The scan then uses the directory name (the repository
  name at the scan directory), the empty string and the empty sequence.
\<close>

theorem extractors_return_normally:
  "(\<exists>meta. parse_metadata safe_load file = Inr meta)
   \<and> parse_metadata safe_load None = Inr default_meta
   \<and> (startswith content ''---'' \<longrightarrow> split_max ''---'' 2 content = [p0, p1, p2]
        \<longrightarrow> load_frontmatter safe_load p1 = Inl e
        \<longrightarrow> parse_metadata safe_load (Some content) = Inr (text_only_meta content))
   \<and> (length (split_max ''---'' 2 content) < 3
        \<longrightarrow> parse_metadata safe_load (Some content) = Inr (text_only_meta content))
   \<and> (\<not> startswith content ''---''
        \<longrightarrow> parse_metadata safe_load (Some content) = Inr (text_only_meta content))
   \<and> text_only_meta content (YStr ''category'') = Some (YStr ''Uncategorized'')
   \<and> text_only_meta content (YStr ''tags'') = Some (YList [])
   \<and> text_only_meta content (YStr ''name'')
        = Some (YStr (case first_header (py_split [NL] content) of None \<Rightarrow> [] | Some h \<Rightarrow> h))
   \<and> text_only_meta content (YStr ''description'')
        = Some (YStr (py_strip (py_join '' ''
            (collect_description (map_option YStr (first_header (py_split [NL] content))) False []
               (py_split [NL] content)))))
   \<and> (first_header (py_split [NL] content) = None \<longrightarrow> text_only_meta content = default_meta)
   \<and> parse_skill_md None = None
   \<and> (\<exists>sd. parse_skill_md (Some content) = Some sd
         \<and> sd_category sd \<noteq> []
         \<and> (category_line (py_split [NL] content) = None
              \<longrightarrow> emphasis_category_line (py_split [NL] content) = None
              \<longrightarrow> sd_category sd = ''Uncategorized'')
         \<and> sd_name sd = first_header (py_split [NL] content)
         \<and> sd_description sd
             = (let description_lines =
                      collect_description (map_option YStr (first_header (py_split [NL] content)))
                        False [] (py_split [NL] content)
                in if description_lines = [] then None
                   else Some (py_strip (py_join '' '' description_lines)))
         \<and> (first_header (py_split [NL] content) = None \<longrightarrow> sd_description sd = None)
         \<and> sd_tags sd = (if extract_tags (py_split [NL] content) = [] then None
                          else Some (extract_tags (py_split [NL] content))))
   \<and> (scan_entry repo_owner repo_name repo_branch repo_path scan_dir (rel, File (Some content)) = Some s
        \<longrightarrow> parse_skill_md (Some content) = Some sd'
        \<longrightarrow> sk_name s = (case sd_name sd' of None \<Rightarrow> YStr (sk_directory s) | Some n \<Rightarrow> YStr n)
            \<and> sk_directory s = (if rel = [] then repo_name else last rel)
            \<and> sk_description s = (case sd_description sd' of None \<Rightarrow> YStr [] | Some d \<Rightarrow> YStr d)
            \<and> sk_category s = YStr (sd_category sd')
            \<and> sk_tags s = (case sd_tags sd' of None \<Rightarrow> YList [] | Some ts \<Rightarrow> YList (map YStr ts)))"
proof -
  have a: "\<exists>meta. parse_metadata safe_load file = Inr meta"
    by (simp add: parse_metadata_def split: sum.splits)
  have b: "parse_metadata safe_load None = Inr default_meta"
    by (simp add: parse_metadata_def parse_metadata_body_def)
  have c: "parse_skill_md None = None"
    by (simp add: parse_skill_md_def)
  have d: "scan_entry repo_owner repo_name repo_branch repo_path scan_dir (rel, File (Some content)) = Some s
        \<longrightarrow> parse_skill_md (Some content) = Some sd'
        \<longrightarrow> sk_name s = (case sd_name sd' of None \<Rightarrow> YStr (sk_directory s) | Some n \<Rightarrow> YStr n)
            \<and> sk_directory s = (if rel = [] then repo_name else last rel)
            \<and> sk_description s = (case sd_description sd' of None \<Rightarrow> YStr [] | Some d \<Rightarrow> YStr d)
            \<and> sk_category s = YStr (sd_category sd')
            \<and> sk_tags s = (case sd_tags sd' of None \<Rightarrow> YList [] | Some ts \<Rightarrow> YList (map YStr ts))"
    using scan_entry_defaults by blast
  have e: "startswith content ''---'' \<longrightarrow> split_max ''---'' 2 content = [p0, p1, p2]
        \<longrightarrow> load_frontmatter safe_load p1 = Inl e
        \<longrightarrow> parse_metadata safe_load (Some content) = Inr (text_only_meta content)"
    using parse_metadata_load_raised by blast
  have f: "length (split_max ''---'' 2 content) < 3
        \<longrightarrow> parse_metadata safe_load (Some content) = Inr (text_only_meta content)"
    using parse_metadata_unclosed by blast
  have g: "\<not> startswith content ''---''
        \<longrightarrow> parse_metadata safe_load (Some content) = Inr (text_only_meta content)"
    using parse_metadata_no_delimiter by blast
  have h: "first_header (py_split [NL] content) = None \<longrightarrow> text_only_meta content = default_meta"
    using text_only_meta_no_header by blast
  show ?thesis
    by (intro conjI a b c d e f g h text_only_meta_category text_only_meta_tags
          text_only_meta_name text_only_meta_description parse_skill_md_all_fields)
qed

theorem extractors_return_normally_witness:
  "startswith broken_document ''---''
   \<and> split_max ''---'' 2 broken_document = [[], [NL] @ '': ['' @ [NL], [NL] @ ''plain'']
   \<and> load_frontmatter no_yaml ([NL] @ '': ['' @ [NL]) = Inl YAMLError
   \<and> first_header (py_split [NL] broken_document) = None
   \<and> parse_metadata no_yaml (Some broken_document) = Inr default_meta
   \<and> length (split_max ''---'' 2 unclosed_document) < 3
   \<and> parse_metadata no_yaml (Some unclosed_document) = Inr (text_only_meta unclosed_document)
   \<and> text_only_meta unclosed_document (YStr ''name'') = Some (YStr ''Real'')
   \<and> text_only_meta unclosed_document (YStr ''description'') = Some (YStr ''text'')
   \<and> \<not> startswith ''plain text'' ''---''
   \<and> first_header (py_split [NL] ''plain text'') = None
   \<and> category_line (py_split [NL] ''plain text'') = None
   \<and> emphasis_category_line (py_split [NL] ''plain text'') = None
   \<and> parse_metadata no_yaml (Some ''plain text'') = Inr default_meta
   \<and> extract_tags (py_split [NL] ''plain text'') = []
   \<and> (\<exists>sd. parse_skill_md (Some ''plain text'') = Some sd
         \<and> sd_category sd = ''Uncategorized''
         \<and> sd_name sd = None \<and> sd_description sd = None \<and> sd_tags sd = None)
   \<and> parse_skill_md (Some ''plain text'') = Some plain_data
   \<and> scan_entry ''acme'' ''repo1'' ''main'' [''tmp'', ''repo''] [''tmp'', ''repo'']
        ([], File (Some ''plain text'')) = Some plain_skill
   \<and> sk_name plain_skill = YStr (sk_directory plain_skill)
   \<and> sk_directory plain_skill = ''repo1''
   \<and> sk_description plain_skill = YStr []
   \<and> sk_tags plain_skill = YList []"
proof -
  have h1: "startswith broken_document ''---''" by code_simp
  have h2: "split_max ''---'' 2 broken_document = [[], [NL] @ '': ['' @ [NL], [NL] @ ''plain'']"
    by code_simp
  have h3: "load_frontmatter no_yaml ([NL] @ '': ['' @ [NL]) = Inl YAMLError"
    by (simp add: load_frontmatter_def no_yaml_def)
  have h4: "first_header (py_split [NL] broken_document) = None" by code_simp
  have u1: "length (split_max ''---'' 2 unclosed_document) < 3" by code_simp
  have u2: "first_header (py_split [NL] unclosed_document) = Some ''Real''" by code_simp
  have u3: "py_strip (py_join '' '' (collect_description (map_option YStr (Some ''Real'')) False []
              (py_split [NL] unclosed_document))) = ''text''"
    by code_simp
  have h5: "\<not> startswith ''plain text'' ''---''" by code_simp
  have h6: "first_header (py_split [NL] ''plain text'') = None" by code_simp
  have h7: "category_line (py_split [NL] ''plain text'') = None" by code_simp
  have h8: "emphasis_category_line (py_split [NL] ''plain text'') = None" by code_simp
  have h9: "parse_skill_md (Some ''plain text'') = Some plain_data" by code_simp
  have h11: "extract_tags (py_split [NL] ''plain text'') = []" by code_simp
  have h10: "scan_entry ''acme'' ''repo1'' ''main'' [''tmp'', ''repo''] [''tmp'', ''repo'']
               ([], File (Some ''plain text'')) = Some plain_skill"
    by code_simp
  have r1: "parse_metadata no_yaml (Some broken_document) = Inr default_meta"
    using h1 h2 h3 h4
      extractors_return_normally [of no_yaml None broken_document "[]" "[NL] @ '': ['' @ [NL]"
        "[NL] @ ''plain''" YAMLError]
    by simp
  have r2: "parse_metadata no_yaml (Some unclosed_document) = Inr (text_only_meta unclosed_document)
            \<and> text_only_meta unclosed_document (YStr ''name'') = Some (YStr ''Real'')
            \<and> text_only_meta unclosed_document (YStr ''description'') = Some (YStr ''text'')"
    using u1 u2 u3 extractors_return_normally [of no_yaml None unclosed_document]
    by simp
  have r3: "parse_metadata no_yaml (Some ''plain text'') = Inr default_meta"
    using h5 h6 extractors_return_normally [of no_yaml None "''plain text''"]
    by simp
  have r4: "sk_name plain_skill = YStr (sk_directory plain_skill)
            \<and> sk_directory plain_skill = ''repo1''
            \<and> sk_description plain_skill = YStr []
            \<and> sk_tags plain_skill = YList []"
    using h9 h10
      extractors_return_normally [of no_yaml None "''plain text''" _ _ _ _ "''acme''" "''repo1''"
        "''main''" "[''tmp'', ''repo'']" "[''tmp'', ''repo'']" "[]" plain_skill plain_data]
    by (simp add: plain_data_def)
  have r5: "\<exists>sd. parse_skill_md (Some ''plain text'') = Some sd
                \<and> sd_category sd = ''Uncategorized''
                \<and> sd_name sd = None \<and> sd_description sd = None \<and> sd_tags sd = None"
    using h6 h7 h8 h11
      extractors_return_normally [of no_yaml None "''plain text''" "[]" "[]" "[]" YAMLError
        "''acme''" "''repo1''" "''main''" "[''tmp'', ''repo'']" "[''tmp'', ''repo'']" "[]"
        plain_skill plain_data]
    by auto
  from h1 h2 h3 h4 r1 u1 r2 h5 h6 h7 h8 r3 h9 h10 h11 r4 r5 show ?thesis by blast
qed

text \<open>
  The claim as stated fails for \<open>Fetcher._parse_skill_md\<close>: for a text without a header
  the result holds no name at all, and the scan names the skill after the directory, not
  with the empty string.
\<close>

theorem fetcher_extractor_omits_name_counterexample:
  "parse_skill_md (Some ''plain text'')
     = Some \<lparr>sd_name = None, sd_description = None, sd_category = ''Uncategorized'', sd_tags = None\<rparr>
   \<and> map sk_name (clone_and_scan_repository (Cloned demo_checkout) [''tmp''] ''acme'' ''repo1'' ''main'' None)
     = [YStr ''repo1'', YStr ''Title'', YStr ''Cached'']"
  by code_simp

section \<open>Frontmatter values are kept (C7)\<close>

text \<open>
  C7. When the text starts with the delimiter, has a frontmatter block, and the block
  loads (at once or after the repair) as a mapping that holds \<open>name\<close>, \<open>description\<close>,
  \<open>category\<close> and \<open>tags\<close>, with a name and a description that are not empty (not
  false in Python's sense), then \<open>_parse_metadata\<close> returns exactly these four values: no
  heuristic replaces any of them.
\<close>

theorem frontmatter_values_kept:
  assumes "startswith content ''---''"
    and "split_max ''---'' 2 content = [p0, p1, p2]"
    and "load_frontmatter safe_load p1 = Inr (YDict kvs)"
    and "map_of kvs (YStr ''name'') = Some n" and "truthy n"
    and "map_of kvs (YStr ''description'') = Some d" and "truthy d"
    and "map_of kvs (YStr ''category'') = Some c"
    and "map_of kvs (YStr ''tags'') = Some t"
  shows "\<exists>meta. parse_metadata safe_load (Some content) = Inr meta
           \<and> meta (YStr ''name'') = Some n \<and> meta (YStr ''description'') = Some d
           \<and> meta (YStr ''category'') = Some c \<and> meta (YStr ''tags'') = Some t"
proof -
  from assms(4) have ne: "kvs \<noteq> []" by auto
  let ?m = "default_meta ++ map_of kvs"
  have st: "frontmatter_stage safe_load default_meta content = (?m, p2)"
    using frontmatter_stage_merged [OF assms(1) assms(2) assms(3) ne] .
  have tn: "get_truthy ?m ''name''" using assms(4,5) by (simp add: get_truthy_def)
  have td: "get_truthy ?m ''description''" using assms(6,7) by (simp add: get_truthy_def)
  have "parse_metadata safe_load (Some content) = Inr ?m"
    by (simp add: parse_metadata_content st heuristic_name_truthy [OF tn]
          heuristic_description_truthy [OF td])
  then show ?thesis using assms(4,6,8,9) by simp
qed

theorem frontmatter_values_kept_witness:
  "startswith alpha_document ''---''
   \<and> split_max ''---'' 2 alpha_document = [[], alpha_frontmatter, [NL] @ ''# Title'' @ [NL] @ ''Body text'' @ [NL]]
   \<and> load_frontmatter (one_document_loader alpha_frontmatter (YDict alpha_mapping)) alpha_frontmatter
       = Inr (YDict alpha_mapping)
   \<and> (\<exists>meta. parse_metadata (one_document_loader alpha_frontmatter (YDict alpha_mapping)) (Some alpha_document) = Inr meta
        \<and> meta (YStr ''name'') = Some (YStr ''Alpha'') \<and> meta (YStr ''description'') = Some (YStr ''First'')
        \<and> meta (YStr ''category'') = Some (YStr ''Tools'')
        \<and> meta (YStr ''tags'') = Some (YList [YStr ''x'', YStr ''y'']))"
proof -
  have h1: "startswith alpha_document ''---''" by code_simp
  have h2: "split_max ''---'' 2 alpha_document
              = [[], alpha_frontmatter, [NL] @ ''# Title'' @ [NL] @ ''Body text'' @ [NL]]"
    by code_simp
  have h3: "load_frontmatter (one_document_loader alpha_frontmatter (YDict alpha_mapping)) alpha_frontmatter
              = Inr (YDict alpha_mapping)"
    by (simp add: load_frontmatter_def one_document_loader_def)
  have h4: "map_of alpha_mapping (YStr ''name'') = Some (YStr ''Alpha'')"
    and h5: "truthy (YStr ''Alpha'')"
    and h6: "map_of alpha_mapping (YStr ''description'') = Some (YStr ''First'')"
    and h7: "truthy (YStr ''First'')"
    and h8: "map_of alpha_mapping (YStr ''category'') = Some (YStr ''Tools'')"
    and h9: "map_of alpha_mapping (YStr ''tags'') = Some (YList [YStr ''x'', YStr ''y''])"
    by (simp_all add: alpha_mapping_def)
  show ?thesis
    using h1 h2 h3 frontmatter_values_kept [OF h1 h2 h3 h4 h5 h6 h7 h8 h9] by blast
qed

section \<open>The repair of nested brackets (C8)\<close>

text \<open>
  C8. Take any text whose frontmatter block the loader rejects with a \<open>YAMLError\<close> and
  which has the line \<^verbatim>\<open>tags: [foo[bar], baz]\<close> among its lines. The repair pass works
  line by line: the lines of the repaired block are the repaired lines of the block. It
  splits the sequence by bracket depth into exactly the items \<open>foo[bar]\<close> and \<open>baz\<close> (a
  comma between the nested brackets does not split), and rewrites the line as
  \<^verbatim>\<open>tags: ["foo[bar]", baz]\<close>, which is a line of the repaired block. When the loader
  reads the repaired block as a mapping in which \<open>tags\<close> is the sequence of these two
  texts, as a YAML loader reads the rewritten line, \<open>_parse_metadata\<close> returns for
  \<open>tags\<close> exactly this sequence, in this order.
\<close>

theorem nested_bracket_tags_repaired:
  assumes "startswith content ''---''"
    and "split_max ''---'' 2 content = [p0, fm, rest]"
    and "safe_load fm = Inl YAMLError"
    and "tags_line \<in> set (py_split [NL] fm)"
    and "safe_load (repair_frontmatter fm) = Inr (YDict kvs)"
    and "map_of kvs (YStr ''tags'') = Some two_tags"
  shows "split_items ''[foo[bar], baz]'' = [''foo[bar]'', ''baz'']
         \<and> (CHR ''['' \<notin> set inner \<longrightarrow> CHR '']'' \<notin> set inner
              \<longrightarrow> split_items (''[foo['' @ inner @ ''], baz]'') = [''foo['' @ inner @ '']'', ''baz''])
         \<and> repair_line tags_line = quoted_tags_line
         \<and> py_split [NL] (repair_frontmatter fm) = map repair_line (py_split [NL] fm)
         \<and> quoted_tags_line \<in> set (py_split [NL] (repair_frontmatter fm))
         \<and> (\<exists>meta. parse_metadata safe_load (Some content) = Inr meta
               \<and> meta (YStr ''tags'') = Some two_tags)"
proof -
  have items: "split_items ''[foo[bar], baz]'' = [''foo[bar]'', ''baz'']" by code_simp
  have line: "repair_line tags_line = quoted_tags_line" by code_simp
  have lines: "py_split [NL] (repair_frontmatter fm) = map repair_line (py_split [NL] fm)"
    by (rule repaired_lines)
  have "repair_line tags_line \<in> set (map repair_line (py_split [NL] fm))"
    using assms(4) by simp
  then have mem: "quoted_tags_line \<in> set (py_split [NL] (repair_frontmatter fm))"
    by (simp only: lines line)
  from assms(6) have ne: "kvs \<noteq> []" by auto
  have ld: "load_frontmatter safe_load fm = Inr (YDict kvs)"
    using assms(3,5) by (simp add: load_frontmatter_def)
  have st: "frontmatter_stage safe_load default_meta content = (default_meta ++ map_of kvs, rest)"
    using frontmatter_stage_merged [OF assms(1) assms(2) ld ne] .
  have pm: "parse_metadata safe_load (Some content)
              = Inr (heuristic_description (heuristic_name (default_meta ++ map_of kvs) rest) rest)"
    unfolding parse_metadata_content st by simp
  have "heuristic_description (heuristic_name (default_meta ++ map_of kvs) rest) rest (YStr ''tags'')
          = Some two_tags"
    using assms(6) by (simp add: heuristic_description_other heuristic_name_other)
  with pm have res: "\<exists>meta. parse_metadata safe_load (Some content) = Inr meta
                  \<and> meta (YStr ''tags'') = Some two_tags"
    by blast
  from items line lines mem res split_items_nested [of inner] show ?thesis by blast
qed

theorem nested_bracket_tags_repaired_witness:
  "startswith ray_document ''---''
   \<and> split_max ''---'' 2 ray_document = [[], ray_frontmatter, [NL] @ ''# T'']
   \<and> one_document_loader ray_repaired (YDict ray_mapping) ray_frontmatter = Inl YAMLError
   \<and> tags_line \<in> set (py_split [NL] ray_frontmatter)
   \<and> one_document_loader ray_repaired (YDict ray_mapping) (repair_frontmatter ray_frontmatter)
        = Inr (YDict ray_mapping)
   \<and> map_of ray_mapping (YStr ''tags'') = Some two_tags
   \<and> CHR ''['' \<notin> set ''a, b'' \<and> CHR '']'' \<notin> set ''a, b''
   \<and> split_items (''[foo['' @ ''a, b'' @ ''], baz]'') = [''foo['' @ ''a, b'' @ '']'', ''baz'']
   \<and> quoted_tags_line \<in> set (py_split [NL] (repair_frontmatter ray_frontmatter))
   \<and> (\<exists>meta. parse_metadata (one_document_loader ray_repaired (YDict ray_mapping))
                (Some ray_document) = Inr meta
          \<and> meta (YStr ''tags'') = Some (YList [YStr ''foo[bar]'', YStr ''baz'']))"
proof -
  let ?L = "one_document_loader ray_repaired (YDict ray_mapping)"
  have h1: "startswith ray_document ''---''" by code_simp
  have h2: "split_max ''---'' 2 ray_document = [[], ray_frontmatter, [NL] @ ''# T'']"
    by code_simp
  have h3: "?L ray_frontmatter = Inl YAMLError" by code_simp
  have h4: "tags_line \<in> set (py_split [NL] ray_frontmatter)" by code_simp
  have rp: "repair_frontmatter ray_frontmatter = ray_repaired" by code_simp
  have h5: "?L (repair_frontmatter ray_frontmatter) = Inr (YDict ray_mapping)"
    by (simp add: rp one_document_loader_def)
  have h6: "map_of ray_mapping (YStr ''tags'') = Some two_tags"
    by (simp add: ray_mapping_def)
  have h7: "CHR ''['' \<notin> set ''a, b''" and h8: "CHR '']'' \<notin> set ''a, b''" by simp_all
  note r = nested_bracket_tags_repaired [OF h1 h2 h3 h4 h5 h6, of "''a, b''"]
  from r h7 h8 have sp: "split_items (''[foo['' @ ''a, b'' @ ''], baz]'')
                           = [''foo['' @ ''a, b'' @ '']'', ''baz'']"
    by blast
  from r have m: "quoted_tags_line \<in> set (py_split [NL] (repair_frontmatter ray_frontmatter))"
    by blast
  from r have e: "\<exists>meta. parse_metadata ?L (Some ray_document) = Inr meta
                     \<and> meta (YStr ''tags'') = Some two_tags"
    by blast
  show ?thesis
    using h1 h2 h3 h4 h5 h6 h7 h8 sp m e unfolding two_tags_def by blast
qed

section \<open>A configured sub-path that does not exist (C9)\<close>

text \<open>
  C9. When a sub-path is configured (a non-empty \<open>skills_path\<close>) and the directory it
  names does not exist under the checkout, \<open>clone_and_scan_repository\<close> returns the empty
  list.
\<close>

theorem scan_missing_subpath:
  assumes "sp \<noteq> []"
    and "\<not> path_exists fs (scan_directory (temp_path @ [''repo'']) (Some sp))"
  shows "clone_and_scan_repository (Cloned fs) temp_path repo_owner repo_name repo_branch (Some sp) = []"
  using assms by (simp add: clone_and_scan_repository_def)

theorem scan_missing_subpath_witness:
  "''skills'' \<noteq> []
   \<and> \<not> path_exists demo_checkout (scan_directory ([''tmp''] @ [''repo'']) (Some ''skills''))
   \<and> clone_and_scan_repository (Cloned demo_checkout) [''tmp''] ''acme'' ''repo1'' ''main'' (Some ''skills'') = []"
proof -
  have h1: "''skills'' \<noteq> []" by simp
  have h2: "\<not> path_exists demo_checkout (scan_directory ([''tmp''] @ [''repo'']) (Some ''skills''))"
    by code_simp
  show ?thesis using h1 h2 scan_missing_subpath [OF h1 h2] by blast
qed

section \<open>Frontmatter that is not a mapping (C10)\<close>



end
